theory Spec2Isabelle
  imports Complex_Main "HOL-Library.Log_Nat"
begin

section \<open>The fiat rate service (services/fiat-api)\<close>

text \<open>
  A shallow embedding of the class \<open>FiatApiService\<close>: its three fields become a record
  that every method takes and returns, a thrown exception becomes the \<open>Inl\<close> side of a
  sum, and what the methods read from outside (the two JSON documents, the HTTP
  response, the clock) is passed in as arguments.

  A number of the source is an IEEE double. A number that is stored or compared (a
  rate, a weight, a time) is written as the real number that the double is. The
  arithmetic of \<open>getWeightedFiatAverage\<close> rounds every sum, product and quotient to a
  double and can leave the finite numbers (\<open>js_number\<close>, \<open>to_double\<close>). The sign of a
  zero is not modelled: \<open>JNum 0\<close> and \<open>Finite 0\<close> stand for a zero of either sign, and a
  division by zero is computed as a division by the positive zero. (No method of the
  service stores a zero as a rate: every value it stores is truthy.)

  The configuration \<open>fiats.json\<close> is read at its declared type \<open>FiatConfig[]\<close>. The
  response body and the baseline are read as \<open>any\<close>, and are modelled untyped.
\<close>

subsection \<open>Data\<close>

text \<open>
  The values the service meets at run time. The response body and the baseline are
  untyped in the source (\<open>any\<close>) and hold JSON values; a property read can also find a
  member of \<open>Object.prototype\<close>, which is a function (\<open>JFunction\<close>, by name) or, under
  \<open>__proto__\<close>, the prototype object itself. A property that is not there reads as
  \<open>undefined\<close>: the value \<open>None\<close> of \<open>js_value option\<close>.
\<close>

datatype js_value =
    JNull
  | JBool bool
  | JNum real
  | JStr string
  | JArr "js_value list"
  | JObj "(string \<times> js_value) list"
  | JFunction string
  | JObjectPrototype

datatype js_type = TUndefined | TObject | TBoolean | TNumber | TString | TFunction

fun truthy :: "js_value option \<Rightarrow> bool" where
  "truthy None = False"
| "truthy (Some JNull) = False"
| "truthy (Some (JBool b)) = b"
| "truthy (Some (JNum r)) = (r \<noteq> 0)"
| "truthy (Some (JStr s)) = (s \<noteq> [])"
| "truthy (Some (JArr xs)) = True"
| "truthy (Some (JObj kvs)) = True"
| "truthy (Some (JFunction f)) = True"
| "truthy (Some JObjectPrototype) = True"

fun typeof :: "js_value option \<Rightarrow> js_type" where
  "typeof None = TUndefined"
| "typeof (Some JNull) = TObject"
| "typeof (Some (JBool b)) = TBoolean"
| "typeof (Some (JNum r)) = TNumber"
| "typeof (Some (JStr s)) = TString"
| "typeof (Some (JArr xs)) = TObject"
| "typeof (Some (JObj kvs)) = TObject"
| "typeof (Some (JFunction f)) = TFunction"
| "typeof (Some JObjectPrototype) = TObject"

text \<open>The interfaces \<open>FiatConfig\<close> and \<open>FiatData extends FiatConfig\<close>. The field
  \<open>rate\<close> is declared a number, but the source also stores what it reads from the
  untyped baseline and from the default table: at run time it holds any value.\<close>

record FiatConfig =
  code :: string
  name :: string
  weight :: real

record FiatData = FiatConfig +
  rate :: js_value

text \<open>The object spread \<open>{ ...config, rate: r }\<close>.\<close>

definition with_rate :: "FiatConfig \<Rightarrow> js_value \<Rightarrow> FiatData" where
  "with_rate config r =
     \<lparr>code = code config, name = name config, weight = weight config, rate = r\<rparr>"

text \<open>
  Reading an own property of a parsed object: with a repeated key, \<open>JSON.parse\<close> keeps
  the last value.
\<close>

definition own_property :: "(string \<times> js_value) list \<Rightarrow> string \<Rightarrow> js_value option" where
  "own_property kvs k = map_of (rev kvs) k"

text \<open>
  What every plain object inherits from \<open>Object.prototype\<close>: eleven functions, and the
  accessor \<open>__proto__\<close>, which gives the prototype object.
\<close>

definition object_prototype_functions :: "string list" where
  "object_prototype_functions =
     [''constructor'', ''hasOwnProperty'', ''isPrototypeOf'', ''propertyIsEnumerable'',
      ''toLocaleString'', ''toString'', ''valueOf'', ''__defineGetter__'',
      ''__defineSetter__'', ''__lookupGetter__'', ''__lookupSetter__'']"

definition inherited :: "string \<Rightarrow> js_value option" where
  "inherited k =
     (if k = ''__proto__'' then Some JObjectPrototype
      else if k \<in> set object_prototype_functions then Some (JFunction k)
      else None)"

text \<open>\<open>obj[k]\<close> for a plain object: the own property, or else the inherited member.\<close>

definition object_member :: "(string \<times> js_value) list \<Rightarrow> string \<Rightarrow> js_value option" where
  "object_member kvs k =
     (case own_property kvs k of Some v \<Rightarrow> Some v | None \<Rightarrow> inherited k)"

text \<open>
  An array answers to \<open>length\<close> and to the canonical decimal spelling of an index
  below its length.
\<close>

definition digit_value :: "char \<Rightarrow> nat option" where
  "digit_value c =
     (let n = (of_char c :: nat) in if 48 \<le> n \<and> n \<le> 57 then Some (n - 48) else None)"

fun decimal_value :: "string \<Rightarrow> nat \<Rightarrow> nat option" where
  "decimal_value [] acc = Some acc"
| "decimal_value (c # cs) acc =
     (case digit_value c of None \<Rightarrow> None | Some d \<Rightarrow> decimal_value cs (10 * acc + d))"

definition array_index :: "string \<Rightarrow> nat option" where
  "array_index k =
     (if k = [] then None
      else if hd k = CHR ''0'' \<and> tl k \<noteq> [] then None
      else decimal_value k 0)"

definition array_property :: "js_value list \<Rightarrow> string \<Rightarrow> js_value option" where
  "array_property xs k =
     (if k = ''length'' then Some (JNum (real (length xs)))
      else (case array_index k of
              None \<Rightarrow> None
            | Some i \<Rightarrow> if i < length xs then Some (xs ! i) else None))"

text \<open>
  \<open>responseData.rates\<close>: only an object can hold a property of that name, and no
  prototype has one. The source reads it after \<open>!responseData\<close> has excluded \<open>null\<close>.
\<close>

definition rates_of :: "js_value \<Rightarrow> js_value option" where
  "rates_of responseData =
     (case responseData of JObj kvs \<Rightarrow> object_member kvs ''rates'' | _ \<Rightarrow> None)"

text \<open>
  \<open>rates[config.code]\<close>, for the value \<open>rates\<close> that passed the structure check (an
  object or an array). What an array inherits from \<open>Array.prototype\<close> is written as
  what it inherits from \<open>Object.prototype\<close>: under either, an inherited name gives a
  function or an object, which the test on the entry rejects like a missing entry.
  The prototype object itself has \<open>null\<close> under \<open>__proto__\<close>.
\<close>

definition rate_entry :: "js_value \<Rightarrow> string \<Rightarrow> js_value option" where
  "rate_entry rates k =
     (case rates of
        JObj kvs \<Rightarrow> object_member kvs k
      | JArr xs \<Rightarrow>
          (case array_property xs k of Some v \<Rightarrow> Some v | None \<Rightarrow> inherited k)
      | JObjectPrototype \<Rightarrow> (if k = ''__proto__'' then Some JNull else inherited k)
      | _ \<Rightarrow> None)"

text \<open>The number held by a value that passed \<open>typeof v === 'number'\<close>.\<close>

definition number_of :: "js_value option \<Rightarrow> real" where
  "number_of v = (case v of Some (JNum r) \<Rightarrow> r | _ \<Rightarrow> 0)"

text \<open>
  What \<open>fetch\<close> and \<open>response.json()\<close> deliver: the request is rejected, or there is
  a response with its \<open>ok\<close> flag and its body (\<open>None\<close> when the body is not JSON and
  \<open>response.json()\<close> throws).
\<close>

datatype fetch_outcome =
    FetchRejected
  | HttpResponse bool "js_value option"

text \<open>
  \<open>FileManager.readJson\<close> is outside the service: its outcome is an input. It throws, or
  it returns the document, \<open>None\<close> standing for \<open>null\<close>.
\<close>

datatype 'a read_outcome =
    ReadThrows
  | ReadValue "'a option"

text \<open>
  The baseline document \<open>baseline.json\<close>. The service reads one thing from it,
  \<open>baseline?.fiat_rates?.[code]\<close>. The document is taken to be an object whose
  \<open>fiat_rates\<close>, when there and not \<open>null\<close>, is an object; what that object holds under
  a code is any value, and a code it does not hold can name an inherited member.
\<close>

record baseline_doc =
  fiat_rates :: "(string \<times> js_value) list option"

definition baseline_rate :: "baseline_doc option \<Rightarrow> string \<Rightarrow> js_value option" where
  "baseline_rate baseline k =
     (case baseline of
        None \<Rightarrow> None
      | Some b \<Rightarrow>
          (case fiat_rates b of None \<Rightarrow> None | Some table \<Rightarrow> object_member table k))"

text \<open>The fields of the service.\<close>

record service =
  cachedRates :: "FiatData list"
  fiatConfig :: "FiatConfig list"
  lastFetch :: "int option"

definition CACHE_DURATION :: int where
  "CACHE_DURATION = 60000"

datatype error =
    ReadError
  | NoFiatRateData
  | InvalidFiatWeights
  | TypeError

subsection \<open>initialize, shouldRefreshCache\<close>

definition initialize ::
  "FiatConfig list read_outcome \<Rightarrow> service \<Rightarrow> (error + unit) \<times> service" where
  "initialize config_read st =
     (case config_read of
        ReadThrows \<Rightarrow> (Inl ReadError, st)
      | ReadValue v \<Rightarrow>
          (Inr (), st\<lparr>fiatConfig := (case v of None \<Rightarrow> [] | Some cfg \<Rightarrow> cfg)\<rparr>))"

definition shouldRefreshCache :: "service \<Rightarrow> int \<Rightarrow> bool" where
  "shouldRefreshCache st now =
     (case lastFetch st of
        None \<Rightarrow> True
      | Some t \<Rightarrow> now - t > CACHE_DURATION)"

subsection \<open>getDefaultRateForCurrency\<close>

definition defaultRates :: "(string \<times> real) list" where
  "defaultRates =
     [(''EUR'', 0.85), (''CNY'', 7.25), (''JPY'', 110), (''GBP'', 0.73), (''INR'', 75),
      (''CAD'', 1.25), (''AUD'', 1.35), (''CHF'', 0.90), (''SEK'', 8.5), (''NOK'', 8.8),
      (''DKK'', 6.2), (''NZD'', 1.45), (''SGD'', 1.35), (''HKD'', 7.8), (''KRW'', 1200),
      (''BRL'', 5.2), (''RUB'', 75), (''ZAR'', 15), (''AED'', 3.67), (''SAR'', 3.75),
      (''TRY'', 8.5), (''MXN'', 20), (''THB'', 32), (''IDR'', 14500), (''MYR'', 4.2),
      (''PHP'', 50), (''PLN'', 3.8), (''HUF'', 300), (''CZK'', 22), (''CLP'', 800),
      (''COP'', 3800), (''ILS'', 3.2), (''EGP'', 15.7), (''PKR'', 160), (''NGN'', 410),
      (''KES'', 110), (''BDT'', 85), (''VND'', 23000), (''ARS'', 100), (''PEN'', 3.7),
      (''QAR'', 3.64), (''KWD'', 0.30), (''BHD'', 0.38), (''OMR'', 0.38), (''MAD'', 9.2),
      (''TND'', 2.8), (''UAH'', 27), (''LKR'', 200), (''RON'', 4.2), (''BGN'', 1.65),
      (''HRK'', 6.5)]"

text \<open>
  \<open>defaultRates[code] || 1.0\<close>. The table is an object literal: the read finds the
  table's entry, or else a member inherited from \<open>Object.prototype\<close>; what it finds is
  returned when it is truthy, and \<open>1.0\<close> otherwise.
\<close>

definition getDefaultRateForCurrency :: "string \<Rightarrow> js_value" where
  "getDefaultRateForCurrency k =
     (case object_member (map (\<lambda>(c, r). (c, JNum r)) defaultRates) k of
        None \<Rightarrow> JNum 1.0
      | Some v \<Rightarrow> if truthy (Some v) then v else JNum 1.0)"

subsection \<open>refreshRates\<close>

text \<open>
  The \<open>try\<close> block up to the structure check: \<open>Some rates\<close> when the response is
  accepted, \<open>None\<close> when one of its statements throws (the request is rejected, the
  status is not ok, the body is not JSON, the body has no object under \<open>rates\<close>).
\<close>

definition fetch_rates :: "fetch_outcome \<Rightarrow> js_value option" where
  "fetch_rates outcome =
     (case outcome of
        FetchRejected \<Rightarrow> None
      | HttpResponse ok body \<Rightarrow>
          if \<not> ok then None
          else (case body of
                  None \<Rightarrow> None
                | Some responseData \<Rightarrow>
                    if \<not> truthy (Some responseData)
                       \<or> \<not> truthy (rates_of responseData)
                       \<or> typeof (rates_of responseData) \<noteq> TObject
                    then None
                    else rates_of responseData))"

text \<open>
  The loop over \<open>this.fiatConfig\<close>, with its two accumulators: the array
  \<open>this.cachedRates\<close> and the local array \<open>missingCurrencies\<close>.
\<close>

fun reconcile_loop ::
  "js_value \<Rightarrow> baseline_doc option \<Rightarrow> FiatConfig list \<Rightarrow> FiatData list \<Rightarrow> string list
     \<Rightarrow> FiatData list \<times> string list" where
  "reconcile_loop rates baseline [] cached missingCurrencies = (cached, missingCurrencies)"
| "reconcile_loop rates baseline (config # rest) cached missingCurrencies =
     (if code config = ''USD'' then
        reconcile_loop rates baseline rest (cached @ [with_rate config (JNum 1.0)])
          missingCurrencies
      else if truthy (rate_entry rates (code config))
              \<and> typeof (rate_entry rates (code config)) = TNumber then
        reconcile_loop rates baseline rest
          (cached @ [with_rate config (JNum (number_of (rate_entry rates (code config))))])
          missingCurrencies
      else
        (case baseline_rate baseline (code config) of
           Some baselineRate \<Rightarrow>
             if truthy (Some baselineRate) then
               reconcile_loop rates baseline rest
                 (cached @ [with_rate config baselineRate]) missingCurrencies
             else
               reconcile_loop rates baseline rest
                 (cached @ [with_rate config (getDefaultRateForCurrency (code config))])
                 (missingCurrencies @ [code config])
         | None \<Rightarrow>
             reconcile_loop rates baseline rest
               (cached @ [with_rate config (getDefaultRateForCurrency (code config))])
               (missingCurrencies @ [code config])))"

text \<open>The callback of \<open>this.fiatConfig.map\<close> in the \<open>catch\<close> block.\<close>

definition baseline_entry :: "baseline_doc option \<Rightarrow> FiatConfig \<Rightarrow> FiatData" where
  "baseline_entry baseline config =
     (case baseline_rate baseline (code config) of
        Some baselineRate \<Rightarrow>
          if truthy (Some baselineRate) then with_rate config baselineRate
          else with_rate config (getDefaultRateForCurrency (code config))
      | None \<Rightarrow> with_rate config (getDefaultRateForCurrency (code config)))"

text \<open>
  What one run of the retried closure meets: the outcome of reading \<open>baseline.json\<close>,
  the outcome of the request, and the time \<open>new Date()\<close> gives when the run completes.
\<close>

record attempt_env =
  baseline_read :: "baseline_doc read_outcome"
  fetched :: fetch_outcome
  clock :: int

text \<open>
  The closure handed to \<open>withRetry\<close>. The baseline is read before the \<open>try\<close>: when that
  read throws, the closure throws, and no field has been assigned yet. Every exception
  of the \<open>try\<close> block is caught, and the \<open>catch\<close> block returns normally.
\<close>

definition refresh_attempt :: "attempt_env \<Rightarrow> service \<Rightarrow> (error + FiatData list) \<times> service" where
  "refresh_attempt env st =
     (case baseline_read env of
        ReadThrows \<Rightarrow> (Inl ReadError, st)
      | ReadValue baseline \<Rightarrow>
          (case fetch_rates (fetched env) of
             Some rates \<Rightarrow>
               (let cached = fst (reconcile_loop rates baseline (fiatConfig st) [] [])
                in (Inr cached, st\<lparr>cachedRates := cached, lastFetch := Some (clock env)\<rparr>))
           | None \<Rightarrow>
               (let cached = map (baseline_entry baseline) (fiatConfig st)
                in (Inr cached, st\<lparr>cachedRates := cached, lastFetch := Some (clock env)\<rparr>))))"

text \<open>
  Modelled from the spec: \<open>withRetry\<close> lives in \<open>utils/retry\<close>, which is not among the
  sources. The spec: it "retries the wrapped operation a bounded number of times
  [...] re-raising the final failure if all attempts exhaust". The operation is given
  by its outcome at each attempt, with the state it leaves; \<open>maxAttempts\<close> is the bound
  (at least one attempt is made).
\<close>

fun retry_loop ::
  "(nat \<Rightarrow> 's \<Rightarrow> ('e + 'a) \<times> 's) \<Rightarrow> nat \<Rightarrow> nat \<Rightarrow> 's \<Rightarrow> ('e + 'a) \<times> 's" where
  "retry_loop operation attempt 0 st = operation attempt st"
| "retry_loop operation attempt (Suc remaining) st =
     (case operation attempt st of
        (Inr v, st') \<Rightarrow> (Inr v, st')
      | (Inl e, st') \<Rightarrow> retry_loop operation (Suc attempt) remaining st')"

definition withRetry ::
  "nat \<Rightarrow> (nat \<Rightarrow> 's \<Rightarrow> ('e + 'a) \<times> 's) \<Rightarrow> 's \<Rightarrow> ('e + 'a) \<times> 's" where
  "withRetry maxAttempts operation st = retry_loop operation 0 (maxAttempts - 1) st"

text \<open>\<open>envs k\<close> is what attempt number \<open>k\<close> meets.\<close>

definition refreshRates ::
  "nat \<Rightarrow> (nat \<Rightarrow> attempt_env) \<Rightarrow> service \<Rightarrow> (error + FiatData list) \<times> service" where
  "refreshRates maxAttempts envs st =
     withRetry maxAttempts (\<lambda>k. refresh_attempt (envs k)) st"

subsection \<open>getFiatRatesWithWeights\<close>

text \<open>\<open>now\<close> is the value of \<open>Date.now()\<close> inside \<open>shouldRefreshCache\<close>.\<close>

definition getFiatRatesWithWeights ::
  "FiatConfig list read_outcome \<Rightarrow> int \<Rightarrow> nat \<Rightarrow> (nat \<Rightarrow> attempt_env) \<Rightarrow> service
     \<Rightarrow> (error + FiatData list) \<times> service" where
  "getFiatRatesWithWeights config_read now maxAttempts envs st =
     (case (if fiatConfig st = [] then initialize config_read st else (Inr (), st)) of
        (Inl e, st1) \<Rightarrow> (Inl e, st1)
      | (Inr u, st1) \<Rightarrow>
          if \<not> shouldRefreshCache st1 now \<and> cachedRates st1 \<noteq> [] then
            (Inr (cachedRates st1), st1)
          else refreshRates maxAttempts envs st1)"

subsection \<open>getWeightedFiatAverage\<close>

text \<open>
  The numbers the averaging computes with: the finite doubles, written as the real
  numbers they are, the two infinities and \<open>NaN\<close>.
\<close>

datatype js_number = Finite real | PosInf | NegInf | NaN

text \<open>
  Rounding a real number to a double, to the nearest with ties to the even mantissa.
  The doubles next to \<open>x\<close> are the multiples of \<open>2\<close> to the power \<open>ulp_exponent x\<close>: 52
  below the exponent of \<open>x\<close>, and \<open>-1074\<close> for the subnormal numbers. The exponent of
  \<open>x\<close> is the integer part of its logarithm to the base \<open>2\<close> (lemma \<open>binade_log\<close>), read
  off the number of bits of an integer, and \<open>-1022\<close> below the smallest normal number.
  A result of magnitude \<open>2 ^ 1024\<close> is beyond the largest double and becomes an infinity.
\<close>

definition round_half_even :: "real \<Rightarrow> int" where
  "round_half_even q =
     (if q - of_int \<lfloor>q\<rfloor> < 1 / 2 then \<lfloor>q\<rfloor>
      else if q - of_int \<lfloor>q\<rfloor> > 1 / 2 then \<lfloor>q\<rfloor> + 1
      else if even \<lfloor>q\<rfloor> then \<lfloor>q\<rfloor> else \<lfloor>q\<rfloor> + 1)"

definition smallest_normal :: real where
  "smallest_normal = 1 / 2 ^ 1022"

definition binade :: "real \<Rightarrow> int" where
  "binade x =
     (if \<bar>x\<bar> < smallest_normal then - 1022
      else bitlen \<lfloor>\<bar>x\<bar> / smallest_normal\<rfloor> - 1023)"

definition ulp_exponent :: "real \<Rightarrow> int" where
  "ulp_exponent x = binade x - 52"

definition grid_round :: "real \<Rightarrow> real" where
  "grid_round x =
     real_of_int (round_half_even (x / 2 powi ulp_exponent x)) * 2 powi ulp_exponent x"

definition to_double :: "real \<Rightarrow> js_number" where
  "to_double x =
     (if x = 0 then Finite 0
      else if (2::real) ^ 1024 \<le> \<bar>grid_round x\<bar> then (if 0 < x then PosInf else NegInf)
      else Finite (grid_round x))"

text \<open>
  The operators \<open>+\<close>, \<open>*\<close> and \<open>/\<close> on numbers. On finite operands the exact result is
  rounded; the other cases are those of IEEE 754. A zero counts as positive.
\<close>

definition is_negative :: "js_number \<Rightarrow> bool" where
  "is_negative x = (case x of Finite a \<Rightarrow> a < 0 | NegInf \<Rightarrow> True | _ \<Rightarrow> False)"

definition infinity :: "bool \<Rightarrow> js_number" where
  "infinity negative = (if negative then NegInf else PosInf)"

fun js_plus :: "js_number \<Rightarrow> js_number \<Rightarrow> js_number" where
  "js_plus (Finite a) (Finite b) = to_double (a + b)"
| "js_plus NaN y = NaN"
| "js_plus x NaN = NaN"
| "js_plus PosInf NegInf = NaN"
| "js_plus NegInf PosInf = NaN"
| "js_plus PosInf y = PosInf"
| "js_plus x PosInf = PosInf"
| "js_plus NegInf y = NegInf"
| "js_plus x NegInf = NegInf"

fun js_times :: "js_number \<Rightarrow> js_number \<Rightarrow> js_number" where
  "js_times (Finite a) (Finite b) = to_double (a * b)"
| "js_times NaN y = NaN"
| "js_times x NaN = NaN"
| "js_times x y =
     (if x = Finite 0 \<or> y = Finite 0 then NaN
      else infinity (is_negative x \<noteq> is_negative y))"

fun js_over :: "js_number \<Rightarrow> js_number \<Rightarrow> js_number" where
  "js_over (Finite a) (Finite b) =
     (if b = 0 then (if a = 0 then NaN else infinity (a < 0)) else to_double (a / b))"
| "js_over NaN y = NaN"
| "js_over x NaN = NaN"
| "js_over (Finite a) y = Finite 0"
| "js_over x (Finite b) = infinity (is_negative x \<noteq> (b < 0))"
| "js_over x y = NaN"

text \<open>
  A rate or a weight enters the arithmetic through \<open>to_double\<close>, which leaves a double
  as it is (lemma \<open>to_double_exact\<close>); a weight or a rate written as a decimal that is
  no double, such as \<open>0.1\<close>, is computed with as the double next to it, which is what
  \<open>JSON.parse\<close> makes of that decimal.

  \<open>1.0 / fiat.rate\<close> converts the rate to a number first. A number converts to itself.
  What the engine makes of any other value (it parses a string, and throws a
  \<open>TypeError\<close> on an object whose \<open>toString\<close> and \<open>valueOf\<close> are not functions) is the
  argument \<open>coerce\<close>.
\<close>

definition to_number ::
  "(js_value \<Rightarrow> error + js_number) \<Rightarrow> js_value \<Rightarrow> error + js_number" where
  "to_number coerce v = (case v of JNum r \<Rightarrow> Inr (to_double r) | _ \<Rightarrow> coerce v)"

definition usdValue :: "(js_value \<Rightarrow> error + js_number) \<Rightarrow> FiatData \<Rightarrow> error + js_number" where
  "usdValue coerce fiat =
     (if code fiat = ''USD'' then Inr (Finite 1.0)
      else (case to_number coerce (rate fiat) of
              Inl e \<Rightarrow> Inl e
            | Inr n \<Rightarrow> Inr (js_over (Finite 1.0) n)))"

fun average_loop ::
  "(js_value \<Rightarrow> error + js_number) \<Rightarrow> FiatData list \<Rightarrow> js_number \<Rightarrow> js_number
     \<Rightarrow> error + js_number \<times> js_number" where
  "average_loop coerce [] weightedSum totalWeight = Inr (weightedSum, totalWeight)"
| "average_loop coerce (fiat # rest) weightedSum totalWeight =
     (case usdValue coerce fiat of
        Inl e \<Rightarrow> Inl e
      | Inr usd \<Rightarrow>
          average_loop coerce rest
            (js_plus weightedSum (js_times usd (to_double (weight fiat))))
            (js_plus totalWeight (to_double (weight fiat))))"

definition getWeightedFiatAverage ::
  "(js_value \<Rightarrow> error + js_number) \<Rightarrow> service \<Rightarrow> error + js_number" where
  "getWeightedFiatAverage coerce st =
     (if cachedRates st = [] then Inl NoFiatRateData
      else (case average_loop coerce (cachedRates st) (Finite 0) (Finite 0) of
              Inl e \<Rightarrow> Inl e
            | Inr (weightedSum, totalWeight) \<Rightarrow>
                if totalWeight = Finite 0 then Inl InvalidFiatWeights
                else Inr (js_over weightedSum totalWeight)))"

text \<open>
  The claimed value of the average, in the arithmetic of the source: the sum of a list
  of numbers, accumulated from \<open>0\<close> in the order of the list.
\<close>

definition js_sum :: "js_number list \<Rightarrow> js_number" where
  "js_sum xs = foldl js_plus (Finite 0) xs"

text \<open>The USD value of an entry whose rate is a number.\<close>

definition usd_of :: "FiatData \<Rightarrow> js_number" where
  "usd_of fiat =
     (if code fiat = ''USD'' then Finite 1
      else js_over (Finite 1) (to_double (number_of (Some (rate fiat)))))"

subsection \<open>getAllFiatRates, getMissingCurrencies\<close>

definition getAllFiatRates :: "service \<Rightarrow> FiatData list" where
  "getAllFiatRates st = cachedRates st"

definition getMissingCurrencies :: "service \<Rightarrow> string list" where
  "getMissingCurrencies st =
     (let configCodes = map code (fiatConfig st);
          cachedCodes = map code (cachedRates st)
      in filter (\<lambda>c. c \<notin> set cachedCodes) configCodes)"

subsection \<open>The rate of one code, as an expression\<close>

text \<open>
  The loop and the \<open>catch\<close> block both end in the same chain: the baseline value when it
  is truthy, the default otherwise. \<open>chain_rate\<close> names that chain, \<open>live_rate\<close> the
  rate the loop gives a code, and \<open>defaulted\<close> the codes the loop puts in
  \<open>missingCurrencies\<close>. The lemmas \<open>reconcile_loop_fst\<close>, \<open>reconcile_loop_snd\<close> and
  \<open>baseline_entry_chain\<close> below show that the source computes them.
\<close>

definition chain_rate :: "baseline_doc option \<Rightarrow> string \<Rightarrow> js_value" where
  "chain_rate baseline k =
     (case baseline_rate baseline k of
        Some v \<Rightarrow> if truthy (Some v) then v else getDefaultRateForCurrency k
      | None \<Rightarrow> getDefaultRateForCurrency k)"

definition live_rate :: "js_value \<Rightarrow> baseline_doc option \<Rightarrow> string \<Rightarrow> js_value" where
  "live_rate rates baseline k =
     (if k = ''USD'' then JNum 1
      else if truthy (rate_entry rates k) \<and> typeof (rate_entry rates k) = TNumber
           then JNum (number_of (rate_entry rates k))
      else chain_rate baseline k)"

definition defaulted :: "js_value \<Rightarrow> baseline_doc option \<Rightarrow> string \<Rightarrow> bool" where
  "defaulted rates baseline k \<longleftrightarrow>
     k \<noteq> ''USD''
     \<and> \<not> (truthy (rate_entry rates k) \<and> typeof (rate_entry rates k) = TNumber)
     \<and> \<not> truthy (baseline_rate baseline k)"

subsection \<open>Concrete runs\<close>

text \<open>The service as its field initialisers leave it.\<close>

definition initial_service :: service where
  "initial_service = \<lparr>cachedRates = [], fiatConfig = [], lastFetch = None\<rparr>"

text \<open>
  The end-to-end scenario of the specification: three configured currencies, a response
  that holds a rate for the euro only, a baseline that does not know \<open>XYZ\<close>.
\<close>

definition scenario_config :: "FiatConfig list" where
  "scenario_config =
     [\<lparr>code = ''USD'', name = ''US Dollar'', weight = 1\<rparr>,
      \<lparr>code = ''EUR'', name = ''Euro'', weight = 1\<rparr>,
      \<lparr>code = ''XYZ'', name = ''Unlisted'', weight = 1\<rparr>]"

definition scenario_baseline :: baseline_doc where
  "scenario_baseline = \<lparr>fiat_rates = Some [(''EUR'', JNum 0.92)]\<rparr>"

definition scenario_body :: js_value where
  "scenario_body =
     JObj [(''base'', JStr ''USD''), (''date'', JStr ''2024-01-01''),
           (''rates'', JObj [(''EUR'', JNum 0.9)])]"

definition scenario_env :: attempt_env where
  "scenario_env =
     \<lparr>baseline_read = ReadValue (Some scenario_baseline),
      fetched = HttpResponse True (Some scenario_body),
      clock = 1000\<rparr>"

definition scenario_service :: service where
  "scenario_service = initial_service\<lparr>fiatConfig := scenario_config\<rparr>"

definition scenario_rates :: "FiatData list" where
  "scenario_rates =
     [\<lparr>code = ''USD'', name = ''US Dollar'', weight = 1, rate = JNum 1\<rparr>,
      \<lparr>code = ''EUR'', name = ''Euro'', weight = 1, rate = JNum 0.9\<rparr>,
      \<lparr>code = ''XYZ'', name = ''Unlisted'', weight = 1, rate = JNum 1\<rparr>]"

text \<open>
  One currency for each tier: the euro is in the response, the pound only in the
  baseline, the franc only in the default table, \<open>XYZ\<close> nowhere.
\<close>

definition tiers_config :: "FiatConfig list" where
  "tiers_config =
     [\<lparr>code = ''USD'', name = ''US Dollar'', weight = 4\<rparr>,
      \<lparr>code = ''EUR'', name = ''Euro'', weight = 3\<rparr>,
      \<lparr>code = ''GBP'', name = ''Pound'', weight = 2\<rparr>,
      \<lparr>code = ''CHF'', name = ''Franc'', weight = 1\<rparr>,
      \<lparr>code = ''XYZ'', name = ''Unlisted'', weight = 1\<rparr>]"

definition tiers_env :: attempt_env where
  "tiers_env =
     \<lparr>baseline_read = ReadValue (Some \<lparr>fiat_rates = Some [(''GBP'', JNum 0.79)]\<rparr>),
      fetched = HttpResponse True (Some (JObj [(''rates'', JObj [(''EUR'', JNum 0.9)])])),
      clock = 1000\<rparr>"

definition tiers_rates :: "FiatData list" where
  "tiers_rates =
     [\<lparr>code = ''USD'', name = ''US Dollar'', weight = 4, rate = JNum 1\<rparr>,
      \<lparr>code = ''EUR'', name = ''Euro'', weight = 3, rate = JNum 0.9\<rparr>,
      \<lparr>code = ''GBP'', name = ''Pound'', weight = 2, rate = JNum 0.79\<rparr>,
      \<lparr>code = ''CHF'', name = ''Franc'', weight = 1, rate = JNum 0.9\<rparr>,
      \<lparr>code = ''XYZ'', name = ''Unlisted'', weight = 1, rate = JNum 1\<rparr>]"

text \<open>
  A failed request, with a baseline that holds a rate for \<open>USD\<close> itself.
\<close>

definition usd_baseline_env :: attempt_env where
  "usd_baseline_env =
     \<lparr>baseline_read =
        ReadValue (Some \<lparr>fiat_rates = Some [(''USD'', JNum 1.02), (''EUR'', JNum 0.92)]\<rparr>),
      fetched = FetchRejected,
      clock = 1000\<rparr>"






text \<open>
  Two cached baskets: weights \<open>1\<close> and \<open>3\<close> with USD values \<open>1.0\<close> and \<open>2.0\<close>; and a
  basket whose weights are all zero.
\<close>

definition basket_service :: service where
  "basket_service =
     \<lparr>cachedRates =
        [\<lparr>code = ''USD'', name = ''A'', weight = 1, rate = JNum 1\<rparr>,
         \<lparr>code = ''GBP'', name = ''B'', weight = 3, rate = JNum 0.5\<rparr>],
      fiatConfig =
        [\<lparr>code = ''USD'', name = ''A'', weight = 1\<rparr>,
         \<lparr>code = ''GBP'', name = ''B'', weight = 3\<rparr>],
      lastFetch = Some 1000\<rparr>"

definition zero_weight_service :: service where
  "zero_weight_service =
     \<lparr>cachedRates =
        [\<lparr>code = ''USD'', name = ''US Dollar'', weight = 0, rate = JNum 1\<rparr>,
         \<lparr>code = ''EUR'', name = ''Euro'', weight = 0, rate = JNum 0.9\<rparr>],
      fiatConfig =
        [\<lparr>code = ''USD'', name = ''US Dollar'', weight = 0\<rparr>,
         \<lparr>code = ''EUR'', name = ''Euro'', weight = 0\<rparr>],
      lastFetch = Some 1000\<rparr>"

text \<open>
  Runs at a later time, a run whose request is rejected, and the snapshot it leaves;
  a service with a cached snapshot, and two with an empty cache stamped \<open>1000\<close>.
\<close>

definition later_env :: attempt_env where
  "later_env =
     \<lparr>baseline_read = ReadValue (Some scenario_baseline),
      fetched = HttpResponse True (Some scenario_body),
      clock = 2000\<rparr>"

definition rejected_env :: attempt_env where
  "rejected_env =
     \<lparr>baseline_read = ReadValue (Some scenario_baseline),
      fetched = FetchRejected,
      clock = 1000\<rparr>"

definition baseline_rates :: "FiatData list" where
  "baseline_rates =
     [\<lparr>code = ''USD'', name = ''US Dollar'', weight = 1, rate = JNum 1\<rparr>,
      \<lparr>code = ''EUR'', name = ''Euro'', weight = 1, rate = JNum 0.92\<rparr>,
      \<lparr>code = ''XYZ'', name = ''Unlisted'', weight = 1, rate = JNum 1\<rparr>]"

definition cached_service :: service where
  "cached_service =
     \<lparr>cachedRates = scenario_rates, fiatConfig = scenario_config, lastFetch = Some 1000\<rparr>"

definition empty_cache_service :: service where
  "empty_cache_service = \<lparr>cachedRates = [], fiatConfig = [], lastFetch = Some 1000\<rparr>"

definition reloaded_service :: service where
  "reloaded_service = \<lparr>cachedRates = [], fiatConfig = scenario_config, lastFetch = Some 1000\<rparr>"

text \<open>
  A response with a negative rate for the pound, which the baseline knows; and a
  configuration whose one code is the name of a member every object inherits, met by a
  rejected request and no baseline.
\<close>

definition negative_pound_env :: attempt_env where
  "negative_pound_env =
     \<lparr>baseline_read = ReadValue (Some \<lparr>fiat_rates = Some [(''GBP'', JNum 0.79)]\<rparr>),
      fetched = HttpResponse True (Some (JObj [(''rates'', JObj [(''GBP'', JNum (- 1))])])),
      clock = 1000\<rparr>"

definition pound_config :: "FiatConfig list" where
  "pound_config =
     [\<lparr>code = ''USD'', name = ''US Dollar'', weight = 1\<rparr>,
      \<lparr>code = ''GBP'', name = ''Pound'', weight = 1\<rparr>]"

definition constructor_config :: "FiatConfig list" where
  "constructor_config = [\<lparr>code = ''constructor'', name = ''Unlisted'', weight = 1\<rparr>]"

definition no_baseline_env :: attempt_env where
  "no_baseline_env = \<lparr>baseline_read = ReadValue None, fetched = FetchRejected, clock = 1000\<rparr>"

text \<open>
  A conversion for the runs of the averaging below, whose rates are all numbers: it
  is never called there.
\<close>

definition unused_coercion :: "js_value \<Rightarrow> error + js_number" where
  "unused_coercion v = Inr NaN"

text \<open>
  A basket of two currencies with rate \<open>1\<close>, each with the weight \<open>2 ^ 1023\<close>, which is
  a double.
\<close>

definition huge_weight :: real where
  "huge_weight = 2 ^ 1023"

definition huge_service :: service where
  "huge_service =
     \<lparr>cachedRates =
        [\<lparr>code = ''EUR'', name = ''Euro'', weight = huge_weight, rate = JNum 1\<rparr>,
         \<lparr>code = ''GBP'', name = ''Pound'', weight = huge_weight, rate = JNum 1\<rparr>],
      fiatConfig =
        [\<lparr>code = ''EUR'', name = ''Euro'', weight = huge_weight\<rparr>,
         \<lparr>code = ''GBP'', name = ''Pound'', weight = huge_weight\<rparr>],
      lastFetch = Some 1000\<rparr>"

section \<open>Properties\<close>

subsection \<open>The reconciliation, code by code\<close>

lemmas run_defs =
  Let_def refresh_attempt_def fetch_rates_def rates_of_def rate_entry_def own_property_def
  object_member_def inherited_def object_prototype_functions_def
  baseline_rate_def with_rate_def getDefaultRateForCurrency_def defaultRates_def number_of_def
  initial_service_def

lemma with_rate_fields [simp]:
  "code (with_rate c r) = code c" "name (with_rate c r) = name c"
  "weight (with_rate c r) = weight c" "rate (with_rate c r) = r"
  by (simp_all add: with_rate_def)

lemma reconcile_loop_fst:
  "fst (reconcile_loop rates baseline cfgs cached missing) =
     cached @ map (\<lambda>c. with_rate c (live_rate rates baseline (code c))) cfgs"
  by (induction cfgs arbitrary: cached missing)
     (simp_all add: live_rate_def chain_rate_def split: option.splits)

lemma reconcile_loop_snd:
  "snd (reconcile_loop rates baseline cfgs cached missing) =
     missing @ filter (defaulted rates baseline) (map code cfgs)"
  by (induction cfgs arbitrary: cached missing)
     (auto simp add: defaulted_def split: option.splits)

lemma baseline_entry_chain:
  "baseline_entry baseline c = with_rate c (chain_rate baseline (code c))"
  by (simp add: baseline_entry_def chain_rate_def split: option.splits)

text \<open>
  The default of a code: the entry of the table for a listed code, \<open>1.0\<close> for a code
  that is neither listed nor the name of an inherited member, and that member otherwise.
\<close>

lemma defaultRates_positive: "(k, r) \<in> set defaultRates \<Longrightarrow> 0 < r"
  by (auto simp: defaultRates_def)

lemma defaultRates_distinct: "distinct (map fst defaultRates)"
  by (simp add: defaultRates_def)

lemma default_table_entry:
  "own_property (map (\<lambda>(c, r). (c, JNum r)) defaultRates) k
     = map_option JNum (map_of defaultRates k)"
proof -
  let ?t = "map (\<lambda>(c, r). (c, JNum r)) defaultRates"
  have fst: "map fst ?t = map fst defaultRates"
    by (simp add: comp_def case_prod_unfold)
  have d: "distinct (map fst ?t)"
    by (simp only: fst defaultRates_distinct)
  then have d': "distinct (map fst (rev ?t))"
    by (simp only: rev_map [symmetric] distinct_rev)
  have "map_of (rev ?t) = map_of ?t"
    using map_of_inject_set [OF d' d] by simp
  then have "map_of (rev ?t) k = map_of ?t k"
    by simp
  also have "\<dots> = map_option JNum (map_of defaultRates k)"
    by (simp add: map_of_map)
  finally show ?thesis by (simp add: own_property_def)
qed

lemma default_rate_listed:
  "map_of defaultRates k = Some r \<Longrightarrow> getDefaultRateForCurrency k = JNum r"
  by (auto simp: getDefaultRateForCurrency_def object_member_def default_table_entry
           dest!: map_of_SomeD defaultRates_positive)

lemma default_rate_unlisted:
  "map_of defaultRates k = None \<Longrightarrow> inherited k = None \<Longrightarrow>
     getDefaultRateForCurrency k = JNum 1"
  by (simp add: getDefaultRateForCurrency_def object_member_def default_table_entry)

lemma default_rate_inherited:
  "map_of defaultRates k = None \<Longrightarrow> inherited k = Some v \<Longrightarrow>
     getDefaultRateForCurrency k = v"
  by (auto simp: getDefaultRateForCurrency_def object_member_def default_table_entry
        inherited_def split: if_splits)



text \<open>The test \<open>rates[code] && typeof rates[code] === 'number'\<close> accepts the non-zero numbers.\<close>

lemma usable_number:
  "truthy v \<and> typeof v = TNumber \<longleftrightarrow> (\<exists>r. r \<noteq> 0 \<and> v = Some (JNum r))"
  by (cases v rule: truthy.cases) auto


subsection \<open>One run of the closure, and the retries\<close>

lemma refresh_attempt_completed:
  assumes "refresh_attempt env st = (Inr out, st')"
  shows "\<exists>baseline. baseline_read env = ReadValue baseline
           \<and> st' = st\<lparr>cachedRates := out, lastFetch := Some (clock env)\<rparr>
           \<and> out = (case fetch_rates (fetched env) of
                      Some rates \<Rightarrow>
                        map (\<lambda>c. with_rate c (live_rate rates baseline (code c))) (fiatConfig st)
                    | None \<Rightarrow>
                        map (\<lambda>c. with_rate c (chain_rate baseline (code c))) (fiatConfig st))"
  using assms
  by (auto simp: refresh_attempt_def Let_def reconcile_loop_fst baseline_entry_chain
           split: read_outcome.splits option.splits)

text \<open>The closure throws only at the baseline read, and then leaves the fields alone.\<close>

lemma refresh_attempt_failed:
  "refresh_attempt env st = (Inl e, st') \<Longrightarrow> st' = st \<and> baseline_read env = ReadThrows"
  by (auto simp: refresh_attempt_def Let_def split: read_outcome.splits option.splits)

lemma refresh_attempt_returns:
  "baseline_read env = ReadValue baseline \<Longrightarrow> \<exists>out st'. refresh_attempt env st = (Inr out, st')"
  by (auto simp: refresh_attempt_def Let_def split: read_outcome.splits option.splits)

lemma retry_loop_completed:
  "retry_loop (\<lambda>k. refresh_attempt (envs k)) a r st = (Inr out, st') \<Longrightarrow>
     \<exists>k. a \<le> k \<and> k \<le> a + r \<and> refresh_attempt (envs k) st = (Inr out, st')
          \<and> (\<forall>j. a \<le> j \<and> j < k \<longrightarrow> baseline_read (envs j) = ReadThrows)"
proof (induction r arbitrary: a)
  case 0
  then show ?case by auto
next
  case (Suc r)
  show ?case
  proof (cases "refresh_attempt (envs a) st")
    case (Pair res st1)
    show ?thesis
    proof (cases res)
      case (Inr v)
      with Pair Suc.prems show ?thesis by auto
    next
      case (Inl e)
      with Pair have st1: "st1 = st" and thr: "baseline_read (envs a) = ReadThrows"
        using refresh_attempt_failed by blast+
      from Suc.prems Pair Inl st1
      have "retry_loop (\<lambda>k. refresh_attempt (envs k)) (Suc a) r st = (Inr out, st')"
        by simp
      from Suc.IH [OF this] obtain k where k: "Suc a \<le> k" "k \<le> Suc a + r"
        "refresh_attempt (envs k) st = (Inr out, st')"
        "\<forall>j. Suc a \<le> j \<and> j < k \<longrightarrow> baseline_read (envs j) = ReadThrows"
        by blast
      have "\<forall>j. a \<le> j \<and> j < k \<longrightarrow> baseline_read (envs j) = ReadThrows"
      proof (intro allI impI)
        fix j assume "a \<le> j \<and> j < k"
        then show "baseline_read (envs j) = ReadThrows"
          using k(4) thr by (cases "j = a") auto
      qed
      with k show ?thesis by (intro exI [of _ k]) auto
    qed
  qed
qed

text \<open>
  A completed \<open>refreshRates\<close> returns what one run of the closure returned, the first
  whose baseline read did not throw.
\<close>

lemma refreshRates_completed:
  assumes "refreshRates n envs st = (Inr out, st')"
  shows "\<exists>k. k \<le> n - 1 \<and> refresh_attempt (envs k) st = (Inr out, st')
           \<and> (\<forall>j<k. baseline_read (envs j) = ReadThrows)"
  using retry_loop_completed [of envs 0 "n - 1" st out st'] assms
  by (auto simp: refreshRates_def withRetry_def)

text \<open>When the first baseline read succeeds, the first run is the only one.\<close>

lemma refreshRates_first_attempt:
  assumes "baseline_read (envs 0) = ReadValue baseline"
  shows "refreshRates n envs st = refresh_attempt (envs 0) st"
proof -
  obtain out st' where "refresh_attempt (envs 0) st = (Inr out, st')"
    using refresh_attempt_returns [OF assms] by blast
  then show ?thesis
    by (cases "n - 1") (simp_all add: refreshRates_def withRetry_def)
qed

text \<open>
  \<open>refreshRates\<close> completes as soon as one of the attempts it may make can read the
  baseline, whatever the requests do: no failure of the request reaches the caller.
\<close>

lemma retry_loop_returns:
  assumes "a \<le> k" and "k \<le> a + r" and "baseline_read (envs k) = ReadValue baseline"
  shows "\<exists>out st'. retry_loop (\<lambda>k. refresh_attempt (envs k)) a r st = (Inr out, st')"
  using assms
proof (induction r arbitrary: a)
  case 0
  then have "k = a" by simp
  with 0 refresh_attempt_returns [of "envs a" baseline st] show ?case by simp
next
  case (Suc r)
  show ?case
  proof (cases "refresh_attempt (envs a) st")
    case (Pair res st1)
    show ?thesis
    proof (cases res)
      case (Inr v)
      with Pair show ?thesis by simp
    next
      case (Inl e)
      with Pair have st1: "st1 = st" and thr: "baseline_read (envs a) = ReadThrows"
        using refresh_attempt_failed by blast+
      from thr Suc.prems have "k \<noteq> a" by auto
      with Suc.prems have "Suc a \<le> k" "k \<le> Suc a + r" by simp_all
      from Suc.IH [OF this Suc.prems(3)] Pair Inl st1 show ?thesis by simp
    qed
  qed
qed

lemma refreshRates_returns:
  assumes "k \<le> n - 1" and "baseline_read (envs k) = ReadValue baseline"
  shows "\<exists>out st'. refreshRates n envs st = (Inr out, st')"
  using retry_loop_returns [of 0 k "n - 1" envs baseline st] assms
  by (simp add: refreshRates_def withRetry_def)

lemma scenario_attempt:
  "refresh_attempt scenario_env scenario_service =
     (Inr scenario_rates,
      \<lparr>cachedRates = scenario_rates, fiatConfig = scenario_config, lastFetch = Some 1000\<rparr>)"
  by (simp add: run_defs scenario_env_def scenario_body_def scenario_service_def
        scenario_config_def scenario_rates_def scenario_baseline_def)

lemma scenario_refresh:
  "refreshRates 3 (\<lambda>k. scenario_env) scenario_service =
     (Inr scenario_rates,
      \<lparr>cachedRates = scenario_rates, fiatConfig = scenario_config, lastFetch = Some 1000\<rparr>)"
  using refreshRates_first_attempt
          [of "\<lambda>k. scenario_env" "Some scenario_baseline" 3 scenario_service]
  by (simp add: scenario_attempt) (simp add: scenario_env_def)

lemma tiers_attempt:
  "refresh_attempt tiers_env (initial_service\<lparr>fiatConfig := tiers_config\<rparr>) =
     (Inr tiers_rates,
      \<lparr>cachedRates = tiers_rates, fiatConfig = tiers_config, lastFetch = Some 1000\<rparr>)"
  by (simp add: run_defs tiers_env_def tiers_config_def tiers_rates_def)

subsection \<open>Total coverage\<close>



subsection \<open>Fallback order\<close>

text \<open>
  Claim C2, as stated, fails: it says that a code with no usable fetched entry gets the
  baseline rate, and that a code known to neither gets the table's default or \<open>1.0\<close>.
  A usable entry is a positive number in the specification; the loop takes every
  non-zero number, so with \<open>-1\<close> fetched for the pound and \<open>0.79\<close> in the baseline the
  pound's rate is \<open>-1\<close>. And for the code \<open>constructor\<close>, with the request rejected and
  no baseline, the rate is not \<open>1.0\<close> but the function every object inherits under that
  name, which both property reads find.
\<close>

theorem fallback_order_exceptions:
  "refresh_attempt negative_pound_env (initial_service\<lparr>fiatConfig := pound_config\<rparr>) =
     (Inr [\<lparr>code = ''USD'', name = ''US Dollar'', weight = 1, rate = JNum 1\<rparr>,
           \<lparr>code = ''GBP'', name = ''Pound'', weight = 1, rate = JNum (- 1)\<rparr>],
      \<lparr>cachedRates =
          [\<lparr>code = ''USD'', name = ''US Dollar'', weight = 1, rate = JNum 1\<rparr>,
           \<lparr>code = ''GBP'', name = ''Pound'', weight = 1, rate = JNum (- 1)\<rparr>],
       fiatConfig = pound_config, lastFetch = Some 1000\<rparr>)
   \<and> baseline_rate (Some \<lparr>fiat_rates = Some [(''GBP'', JNum 0.79)]\<rparr>) ''GBP''
       = Some (JNum 0.79)
   \<and> refresh_attempt no_baseline_env (initial_service\<lparr>fiatConfig := constructor_config\<rparr>) =
     (Inr [\<lparr>code = ''constructor'', name = ''Unlisted'', weight = 1,
            rate = JFunction ''constructor''\<rparr>],
      \<lparr>cachedRates =
          [\<lparr>code = ''constructor'', name = ''Unlisted'', weight = 1,
            rate = JFunction ''constructor''\<rparr>],
       fiatConfig = constructor_config, lastFetch = Some 1000\<rparr>)
   \<and> map_of defaultRates ''constructor'' = None"
  by (simp add: run_defs baseline_entry_def negative_pound_env_def pound_config_def
        no_baseline_env_def constructor_config_def)

text \<open>
  Claim C2, amended. Take a configured code other than \<open>USD\<close> that is not the name of a
  member inherited from \<open>Object.prototype\<close>, for which the request delivered no
  non-zero number (it failed, or its rates hold nothing, zero or a non-number under the
  code). When the baseline holds a truthy value for the code, the reconciled rate is that
  value. When the baseline holds nothing for it, or a falsy value, the reconciled rate is
  the entry of the default table, or \<open>1.0\<close> for a code the table does not list.
\<close>

theorem fallback_order:
  assumes "refresh_attempt env st = (Inr out, st')"
      and "baseline_read env = ReadValue baseline"
      and "i < length (fiatConfig st)"
      and "code (fiatConfig st ! i) = k"
      and "k \<noteq> ''USD''"
      and "inherited k = None"
      and "\<forall>rates r. fetch_rates (fetched env) = Some rates \<and> rate_entry rates k = Some (JNum r)
             \<longrightarrow> r = 0"
  shows "code (out ! i) = k
       \<and> (\<forall>v. baseline_rate baseline k = Some v \<and> truthy (Some v) \<longrightarrow> rate (out ! i) = v)
       \<and> (\<not> truthy (baseline_rate baseline k) \<longrightarrow>
            rate (out ! i) = JNum (case map_of defaultRates k of Some d \<Rightarrow> d | None \<Rightarrow> 1))"
proof -
  from refresh_attempt_completed [OF assms(1)] assms(2)
  have out: "out = (case fetch_rates (fetched env) of
                      Some rates \<Rightarrow>
                        map (\<lambda>c. with_rate c (live_rate rates baseline (code c))) (fiatConfig st)
                    | None \<Rightarrow>
                        map (\<lambda>c. with_rate c (chain_rate baseline (code c))) (fiatConfig st))"
    by auto
  have live: "live_rate rates baseline k = chain_rate baseline k"
    if "fetch_rates (fetched env) = Some rates" for rates
    using that assms(5,7) by (auto simp: live_rate_def usable_number)
  have at_i: "out ! i = with_rate (fiatConfig st ! i) (chain_rate baseline k)"
    using out assms(3,4) live by (auto split: option.splits)
  have default: "getDefaultRateForCurrency k
                   = JNum (case map_of defaultRates k of Some d \<Rightarrow> d | None \<Rightarrow> 1)"
    using assms(6) default_rate_listed [of k] default_rate_unlisted [of k]
    by (cases "map_of defaultRates k") simp_all
  have "\<forall>v. baseline_rate baseline k = Some v \<and> truthy (Some v) \<longrightarrow> rate (out ! i) = v"
    by (simp add: at_i chain_rate_def)
  moreover have "\<not> truthy (baseline_rate baseline k) \<longrightarrow>
            rate (out ! i) = JNum (case map_of defaultRates k of Some d \<Rightarrow> d | None \<Rightarrow> 1)"
    by (auto simp: at_i chain_rate_def default split: option.splits)
  ultimately show ?thesis by (simp add: at_i assms(4))
qed

lemma tiers_fetch:
  "fetch_rates (fetched tiers_env) = Some (JObj [(''EUR'', JNum 0.9)])"
  by (simp add: run_defs tiers_env_def)

theorem fallback_order_witness:
  "refresh_attempt tiers_env (initial_service\<lparr>fiatConfig := tiers_config\<rparr>) =
     (Inr tiers_rates,
      \<lparr>cachedRates = tiers_rates, fiatConfig = tiers_config, lastFetch = Some 1000\<rparr>)
   \<and> rate (tiers_rates ! 2) = JNum 0.79
   \<and> rate (tiers_rates ! 3) = JNum 0.9
   \<and> rate (tiers_rates ! 4) = JNum 1"
proof -
  let ?st = "initial_service\<lparr>fiatConfig := tiers_config\<rparr>"
  let ?b = "Some \<lparr>fiat_rates = Some [(''GBP'', JNum 0.79)]\<rparr>"
  have b: "baseline_read tiers_env = ReadValue ?b"
    by (simp add: tiers_env_def)
  have absent: "\<forall>rates r. fetch_rates (fetched tiers_env) = Some rates
                  \<and> rate_entry rates k = Some (JNum r) \<longrightarrow> r = 0"
    if "k \<noteq> ''EUR''" and "inherited k = None" for k
    using that by (simp add: tiers_fetch rate_entry_def object_member_def own_property_def)
  have len: "2 < length (fiatConfig ?st)" "3 < length (fiatConfig ?st)"
    "4 < length (fiatConfig ?st)"
    by (simp_all add: tiers_config_def)
  have codes: "code (fiatConfig ?st ! 2) = ''GBP''" "code (fiatConfig ?st ! 3) = ''CHF''"
    "code (fiatConfig ?st ! 4) = ''XYZ''"
    by (simp_all add: tiers_config_def)
  have own: "inherited ''GBP'' = None" "inherited ''CHF'' = None" "inherited ''XYZ'' = None"
    by (simp_all add: inherited_def object_prototype_functions_def)
  have in_baseline:
    "baseline_rate ?b ''GBP'' = Some (JNum 0.79) \<and> truthy (Some (JNum 0.79))"
    by (simp add: baseline_rate_def object_member_def own_property_def)
  have not_in_baseline:
    "\<not> truthy (baseline_rate ?b ''CHF'')" "\<not> truthy (baseline_rate ?b ''XYZ'')"
    by (simp_all add: baseline_rate_def object_member_def own_property_def own)
  have table: "(case map_of defaultRates ''CHF'' of Some d \<Rightarrow> d | None \<Rightarrow> 1) = (0.9::real)"
    "(case map_of defaultRates ''XYZ'' of Some d \<Rightarrow> d | None \<Rightarrow> 1) = (1::real)"
    by (simp_all add: defaultRates_def)
  have neq: "''GBP'' \<noteq> ''USD''" "''CHF'' \<noteq> ''USD''" "''XYZ'' \<noteq> ''USD''"
    "''GBP'' \<noteq> ''EUR''" "''CHF'' \<noteq> ''EUR''" "''XYZ'' \<noteq> ''EUR''"
    by simp_all
  note gbp_tier = fallback_order
    [OF tiers_attempt b len(1) codes(1) neq(1) own(1) absent [OF neq(4) own(1)]]
  note chf_tier = fallback_order
    [OF tiers_attempt b len(2) codes(2) neq(2) own(2) absent [OF neq(5) own(2)]]
  note xyz_tier = fallback_order
    [OF tiers_attempt b len(3) codes(3) neq(3) own(3) absent [OF neq(6) own(3)]]
  have gbp: "rate (tiers_rates ! 2) = JNum 0.79"
    by (rule gbp_tier [THEN conjunct2, THEN conjunct1, rule_format, OF in_baseline])
  have chf: "rate (tiers_rates ! 3) = JNum 0.9"
    using chf_tier [THEN conjunct2, THEN conjunct2, rule_format, OF not_in_baseline(1)]
    by (simp only: table)
  have xyz: "rate (tiers_rates ! 4) = JNum 1"
    using xyz_tier [THEN conjunct2, THEN conjunct2, rule_format, OF not_in_baseline(2)]
    by (simp only: table)
  from gbp chf xyz show ?thesis by (simp add: tiers_attempt)
qed

subsection \<open>The reference currency\<close>

text \<open>
  The loop gives every \<open>USD\<close> entry the rate \<open>1.0\<close> before it looks at the response or
  the baseline: after an accepted response the reference rate is \<open>1.0\<close> whatever the
  response and the baseline hold.
\<close>

lemma usd_rate_after_fetch:
  assumes "refresh_attempt env st = (Inr out, st')"
      and "fetch_rates (fetched env) = Some rates"
      and "f \<in> set out" and "code f = ''USD''"
  shows "rate f = JNum 1"
proof -
  from refresh_attempt_completed [OF assms(1)] assms(2) obtain baseline
    where "out = map (\<lambda>c. with_rate c (live_rate rates baseline (code c))) (fiatConfig st)"
    by auto
  with assms(3,4) show ?thesis by (auto simp: live_rate_def)
qed

text \<open>
  Claim C3 says that the \<open>USD\<close> entry has rate \<open>1.0\<close> in every snapshot, also when the
  \<open>catch\<close> block built it, whatever the baseline holds. The \<open>catch\<close> block has no case
  for \<open>USD\<close>: after a rejected request, with a baseline whose \<open>fiat_rates\<close> hold
  \<open>1.02\<close> for \<open>USD\<close>, the \<open>USD\<close> entry of the snapshot has rate \<open>1.02\<close>.
\<close>

theorem usd_rate_after_fetch_failure:
  "refresh_attempt usd_baseline_env scenario_service =
     (Inr [\<lparr>code = ''USD'', name = ''US Dollar'', weight = 1, rate = JNum 1.02\<rparr>,
           \<lparr>code = ''EUR'', name = ''Euro'', weight = 1, rate = JNum 0.92\<rparr>,
           \<lparr>code = ''XYZ'', name = ''Unlisted'', weight = 1, rate = JNum 1\<rparr>],
      \<lparr>cachedRates =
          [\<lparr>code = ''USD'', name = ''US Dollar'', weight = 1, rate = JNum 1.02\<rparr>,
           \<lparr>code = ''EUR'', name = ''Euro'', weight = 1, rate = JNum 0.92\<rparr>,
           \<lparr>code = ''XYZ'', name = ''Unlisted'', weight = 1, rate = JNum 1\<rparr>],
       fiatConfig = scenario_config, lastFetch = Some 1000\<rparr>)"
  by (simp add: run_defs baseline_entry_def usd_baseline_env_def scenario_service_def
        scenario_config_def)

subsection \<open>Missing currencies\<close>

text \<open>
  \<open>getMissingCurrencies\<close> lists the configured codes that have no entry in the cache.
  A completed refresh caches an entry for every configured code, so after it the list
  is empty, whatever the loop collected in \<open>missingCurrencies\<close>.
\<close>

lemma getMissingCurrencies_after_refresh:
  assumes "refreshRates n envs st = (Inr out, st')"
  shows "getMissingCurrencies st' = []"
proof -
  obtain k where "refresh_attempt (envs k) st = (Inr out, st')"
    using refreshRates_completed [OF assms] by blast
  from refresh_attempt_completed [OF this]
  have "map code (cachedRates st') = map code (fiatConfig st')"
    by (auto simp: comp_def split: option.splits)
  then show ?thesis
    by (simp add: getMissingCurrencies_def)
qed

text \<open>
  Claim C5 says that after a reconciliation \<open>getMissingCurrencies\<close> returns the codes
  that fell through to the default, \<open>[XYZ]\<close> in the scenario. In the scenario the loop
  does collect \<open>[XYZ]\<close> in its local \<open>missingCurrencies\<close> and the refresh returns the
  three rates, but \<open>getMissingCurrencies\<close> then returns the empty list.
\<close>

theorem missing_currencies_scenario:
  "snd (reconcile_loop (JObj [(''EUR'', JNum 0.9)]) (Some scenario_baseline) scenario_config [] [])
     = [''XYZ'']
   \<and> fst (refreshRates 3 (\<lambda>k. scenario_env) scenario_service) = Inr scenario_rates
   \<and> getMissingCurrencies (snd (refreshRates 3 (\<lambda>k. scenario_env) scenario_service)) = []"
  by (simp add: scenario_refresh getMissingCurrencies_def)
     (simp add: run_defs scenario_config_def scenario_baseline_def scenario_rates_def)

subsection \<open>Which fetched values are taken\<close>





subsection \<open>Rounding to a double\<close>

lemma round_half_even_int: "round_half_even (real_of_int n) = n"
  by (simp add: round_half_even_def)

lemma round_half_even_ge: "\<lfloor>q\<rfloor> \<le> round_half_even q"
  by (simp add: round_half_even_def)

lemma two_powr_nat: "0 \<le> i \<Longrightarrow> (2::real) powr real_of_int i = 2 ^ nat i"
  by (simp add: powr_real_of_int)

lemma two_powi: "(2::real) powi e = 2 powr real_of_int e"
  by (simp add: powr_real_of_int')

lemma smallest_normal_positive: "0 < smallest_normal"
  by (simp add: smallest_normal_def)

lemma log_two_inverse_power: "log 2 (1 / 2 ^ n) = - real n"
  by (simp add: log_divide)

lemma log_smallest_normal: "log 2 smallest_normal = - 1022"
  unfolding smallest_normal_def using log_two_inverse_power [of 1022] by simp

text \<open>The exponent of a number other than zero, as a logarithm.\<close>

lemma binade_log:
  assumes "x \<noteq> 0"
  shows "binade x = max \<lfloor>log 2 \<bar>x\<bar>\<rfloor> (- 1022)"
proof -
  define a where "a = \<bar>x\<bar>"
  define y where "y = a / smallest_normal"
  have a: "0 < a" using assms by (simp add: a_def)
  then have y: "0 < y" using smallest_normal_positive by (simp add: y_def)
  have logy: "log 2 y = log 2 a + 1022"
    using a smallest_normal_positive by (simp add: y_def log_divide log_smallest_normal)
  have small: "a < smallest_normal \<longleftrightarrow> y < 1"
    using smallest_normal_positive by (simp add: y_def)
  show ?thesis
  proof (cases "y < 1")
    case True
    then have "log 2 y < 0" using y by simp
    then have "log 2 a < - 1022" using logy by simp
    then have "\<lfloor>log 2 a\<rfloor> < - 1022" by (simp add: floor_less_iff)
    with True small show ?thesis by (simp add: binade_def a_def [symmetric])
  next
    case False
    define n where "n = nat \<lfloor>y\<rfloor>"
    define L where "L = \<lfloor>log 2 y\<rfloor>"
    from False have y1: "1 \<le> y" by simp
    then have n: "0 < n" by (simp add: n_def)
    have "0 \<le> log 2 y" using y1 by simp
    then have L0: "0 \<le> L" by (simp add: L_def)
    have bounds: "2 powr real_of_int L \<le> y" "y < 2 powr (real_of_int L + 1)"
      using floor_log_eq_powr_iff [of y 2 L] y by (simp_all add: L_def)
    have p: "(2::real) powr real_of_int L = real_of_int (2 ^ nat L)"
      using L0 by (simp add: powr_real_of_int)
    have "real_of_int (2 ^ nat L) \<le> y" using bounds(1) p by simp
    then have "2 ^ nat L \<le> \<lfloor>y\<rfloor>" by (simp only: le_floor_iff)
    then have lo: "2 powr real_of_int L \<le> real n"
      using p y1 by (simp add: n_def)
    have "real n \<le> y" using y1 by (simp add: n_def)
    with bounds(2) have hi: "real n < 2 powr (real_of_int L + 1)" by simp
    have "\<lfloor>log 2 (real n)\<rfloor> = L"
      using floor_log_eq_powr_iff [of "real n" 2 L] n lo hi by simp
    then have "bitlen \<lfloor>y\<rfloor> = L + 1"
      using n L0 by (simp add: bitlen_def floorlog_def n_def [symmetric])
    moreover have "\<lfloor>log 2 a\<rfloor> = L - 1022"
      using logy by (simp add: L_def)
    ultimately show ?thesis
      using False small L0
      by (simp add: binade_def a_def [symmetric] y_def [symmetric])
  qed
qed

lemma ulp_exponent_log:
  "x \<noteq> 0 \<Longrightarrow> ulp_exponent x = max \<lfloor>log 2 \<bar>x\<bar>\<rfloor> (- 1022) - 52"
  by (simp add: ulp_exponent_def binade_log)


lemma ulp_exponent_le:
  assumes "m \<noteq> 0" and "\<bar>m\<bar> < 2 ^ 53" and "- 1074 \<le> k"
  shows "ulp_exponent (real_of_int m * 2 powr real_of_int k) \<le> k"
proof -
  let ?x = "real_of_int m * 2 powr real_of_int k"
  have pos: "0 < \<bar>?x\<bar>" using assms(1) by simp
  have "\<bar>?x\<bar> = real_of_int \<bar>m\<bar> * 2 powr real_of_int k" by (simp add: abs_mult)
  also have "\<dots> < 2 ^ 53 * 2 powr real_of_int k"
  proof -
    have "real_of_int \<bar>m\<bar> < real_of_int (2 ^ 53)"
      using assms(2) by (simp only: of_int_less_iff)
    then show ?thesis by simp
  qed
  also have "\<dots> = 2 powr (real_of_int (53 + k))"
    by (simp add: powr_add powr_realpow [symmetric])
  finally have "\<bar>?x\<bar> < 2 powr (real_of_int (53 + k))" .
  then have "log 2 \<bar>?x\<bar> < real_of_int (53 + k)"
    using pos by (simp add: log_less_iff)
  then have "\<lfloor>log 2 \<bar>?x\<bar>\<rfloor> < 53 + k" by (simp add: floor_less_iff)
  moreover have "?x \<noteq> 0" using assms(1) by simp
  ultimately show ?thesis using assms(3) by (simp add: ulp_exponent_log)
qed

text \<open>
  A number \<open>m * 2 ^ k\<close> with a mantissa below \<open>2 ^ 53\<close> and an exponent from \<open>-1074\<close>,
  of magnitude below \<open>2 ^ 1024\<close>, is a double: rounding leaves it as it is.
\<close>

lemma to_double_exact:
  assumes "\<bar>m\<bar> < 2 ^ 53" and "- 1074 \<le> k"
      and "\<bar>real_of_int m * 2 powr real_of_int k\<bar> < 2 ^ 1024"
  shows "to_double (real_of_int m * 2 powr real_of_int k)
           = Finite (real_of_int m * 2 powr real_of_int k)"
proof (cases "m = 0")
  case True
  then show ?thesis by (simp add: to_double_def)
next
  case False
  define x where "x = real_of_int m * 2 powr real_of_int k"
  define e where "e = ulp_exponent x"
  define p where "p = (2::real) powr real_of_int e"
  have p: "0 < p" by (simp add: p_def)
  have le: "e \<le> k"
    unfolding e_def x_def using ulp_exponent_le [OF False assms(1,2)] .
  have "(2::real) powr real_of_int k = 2 powr (real_of_int (k - e) + real_of_int e)"
    by simp
  also have "\<dots> = 2 powr real_of_int (k - e) * p"
    unfolding p_def by (rule powr_add)
  also have "\<dots> = 2 ^ nat (k - e) * p"
    using le by (simp only: two_powr_nat [of "k - e"] diff_ge_0_iff_ge)
  finally have xn: "x = real_of_int (m * 2 ^ nat (k - e)) * p"
    by (simp add: x_def)
  have gr: "grid_round x = real_of_int (round_half_even (x / p)) * p"
    by (simp add: grid_round_def two_powi e_def p_def)
  have "x / p = real_of_int (m * 2 ^ nat (k - e))"
    using p by (subst xn) simp
  then have "grid_round x = real_of_int (m * 2 ^ nat (k - e)) * p"
    unfolding gr by (simp only: round_half_even_int)
  then have "grid_round x = x"
    by (simp only: xn [symmetric])
  moreover have "x \<noteq> 0" using False by (simp add: x_def)
  ultimately show ?thesis
    using assms(3) by (simp add: to_double_def x_def [symmetric])
qed

text \<open>A number from \<open>2 ^ 1024\<close> on rounds to \<open>Infinity\<close>.\<close>

lemma to_double_overflow:
  assumes "2 ^ 1024 \<le> x"
  shows "to_double x = PosInf"
proof -
  define L where "L = \<lfloor>log 2 \<bar>x\<bar>\<rfloor>"
  define e where "e = ulp_exponent x"
  define p where "p = (2::real) powr real_of_int e"
  have p: "0 < p" by (simp add: p_def)
  have x: "0 < x" "\<bar>x\<bar> = x"
    using assms by (auto intro: less_le_trans [of 0 "2 ^ 1024"])
  have "(2::real) powr 1024 \<le> x"
    using assms by (simp add: powr_numeral)
  then have "1024 \<le> log 2 x" using x by (simp add: le_log_iff)
  then have L: "1024 \<le> L" using x by (simp add: L_def le_floor_iff)
  then have e: "e = L - 52" using x by (simp add: e_def ulp_exponent_log L_def)
  have "real_of_int L \<le> log 2 x" using x by (simp add: L_def)
  then have low: "2 powr real_of_int L \<le> x" using x by (simp add: le_log_iff)
  have "(2::real) powr real_of_int L = 2 powr (52 + real_of_int e)"
    by (simp add: e)
  also have "\<dots> = 2 powr 52 * p"
    unfolding p_def by (rule powr_add)
  also have "\<dots> = 2 ^ 52 * p" by (simp add: powr_numeral)
  finally have L_eq: "(2::real) powr real_of_int L = 2 ^ 52 * p" .
  with low have "2 ^ 52 * p \<le> x" by simp
  then have "(2::real) ^ 52 \<le> x / p"
    using p by (simp add: pos_le_divide_eq)
  then have "(2::int) ^ 52 \<le> \<lfloor>x / p\<rfloor>"
    by (simp add: le_floor_iff)
  then have "(2::int) ^ 52 \<le> round_half_even (x / p)"
    using round_half_even_ge [of "x / p"] by linarith
  then have "real_of_int (2 ^ 52) \<le> real_of_int (round_half_even (x / p))"
    by (simp only: of_int_le_iff)
  then have "2 ^ 52 * p \<le> grid_round x"
    using p by (simp add: grid_round_def two_powi e_def [symmetric] p_def [symmetric])
  with L_eq have "2 powr real_of_int L \<le> grid_round x" by simp
  moreover have "(2::real) powr 1024 \<le> 2 powr real_of_int L"
    using L by (intro powr_mono) simp_all
  ultimately have "2 ^ 1024 \<le> grid_round x"
    by (simp add: powr_numeral)
  then have "2 ^ 1024 \<le> \<bar>grid_round x\<bar>" by linarith
  with x show ?thesis by (simp add: to_double_def)
qed

text \<open>The numbers of the concrete baskets are doubles.\<close>

lemma to_double_small:
  "to_double 0 = Finite 0" "to_double 1 = Finite 1" "to_double 2 = Finite 2"
  "to_double 3 = Finite 3" "to_double 4 = Finite 4" "to_double 6 = Finite 6"
  "to_double 7 = Finite 7" "to_double (1 / 2) = Finite (1 / 2)"
  "to_double (7 / 4) = Finite (7 / 4)"
  using to_double_exact [of 0 0] to_double_exact [of 1 0] to_double_exact [of 2 0]
    to_double_exact [of 3 0] to_double_exact [of 4 0] to_double_exact [of 6 0]
    to_double_exact [of 7 0] to_double_exact [of 1 "- 1"] to_double_exact [of 7 "- 2"]
  by (simp_all add: powr_minus powr_numeral)

lemma huge_weight_positive: "0 < huge_weight"
  by (simp add: huge_weight_def)

lemma to_double_huge: "to_double huge_weight = Finite huge_weight"
proof -
  have "(2::real) powr real_of_int 1023 = 2 ^ 1023"
    using two_powr_nat [of 1023] by simp
  moreover have "(2::real) ^ 1023 < 2 ^ 1024"
    by (rule power_strict_increasing) simp_all
  ultimately have "to_double (2 ^ 1023) = Finite (2 ^ 1023)"
    using to_double_exact [of 1 1023] by simp
  then show ?thesis by (simp only: huge_weight_def)
qed

lemma to_double_twice_huge:
  "to_double (huge_weight + huge_weight) = PosInf"
  "to_double (2 * huge_weight) = PosInf"
  by (rule to_double_overflow, simp add: huge_weight_def)+

subsection \<open>The weighted average\<close>

text \<open>
  For an entry whose rate is a number no conversion is needed, and the loop computes
  the two sums of the claimed quotient, in the order of the list.
\<close>

lemma usdValue_number:
  assumes "code f \<noteq> ''USD'' \<longrightarrow> typeof (Some (rate f)) = TNumber"
  shows "usdValue coerce f = Inr (usd_of f)"
  using assms
  by (cases "rate f") (auto simp: usdValue_def usd_of_def to_number_def number_of_def)

lemma average_loop_numbers:
  assumes "\<forall>f \<in> set fs. code f \<noteq> ''USD'' \<longrightarrow> typeof (Some (rate f)) = TNumber"
  shows "average_loop coerce fs weightedSum totalWeight =
           Inr (foldl js_plus weightedSum
                  (map (\<lambda>f. js_times (usd_of f) (to_double (weight f))) fs),
                foldl js_plus totalWeight (map (\<lambda>f. to_double (weight f)) fs))"
  using assms
proof (induction fs arbitrary: weightedSum totalWeight)
  case Nil
  then show ?case by simp
next
  case (Cons f fs)
  then have "usdValue coerce f = Inr (usd_of f)"
    by (intro usdValue_number) simp
  with Cons show ?case by simp
qed

text \<open>
  Claim C6, as stated, fails: it says that the average is the quotient of the two sums,
  which for two currencies of rate \<open>1\<close> and weight \<open>2 ^ 1023\<close> each is \<open>1\<close>. The source
  computes in doubles: both sums overflow to \<open>Infinity\<close>, and the average is \<open>NaN\<close>.
\<close>

theorem weighted_average_overflow:
  "cachedRates huge_service \<noteq> []
   \<and> 0 < (\<Sum>f\<leftarrow>cachedRates huge_service. weight f)
   \<and> (\<Sum>f\<leftarrow>cachedRates huge_service. 1 / number_of (Some (rate f)) * weight f)
        / (\<Sum>f\<leftarrow>cachedRates huge_service. weight f) = 1
   \<and> getWeightedFiatAverage unused_coercion huge_service = Inr NaN"
proof -
  have sums: "cachedRates huge_service \<noteq> []
      \<and> 0 < (\<Sum>f\<leftarrow>cachedRates huge_service. weight f)
      \<and> (\<Sum>f\<leftarrow>cachedRates huge_service. 1 / number_of (Some (rate f)) * weight f)
        / (\<Sum>f\<leftarrow>cachedRates huge_service. weight f) = 1"
    using huge_weight_positive by (simp add: huge_service_def number_of_def)
  have "average_loop unused_coercion (cachedRates huge_service) (Finite 0) (Finite 0)
          = Inr (PosInf, PosInf)"
    by (simp add: huge_service_def usdValue_def to_number_def to_double_small
          to_double_huge to_double_twice_huge)
  then have "getWeightedFiatAverage unused_coercion huge_service = Inr NaN"
    by (simp add: getWeightedFiatAverage_def huge_service_def)
  with sums show ?thesis by simp
qed

text \<open>
  Claim C6, amended. For a cached list that is not empty, whose rates are numbers and
  whose total weight, as the source adds it up, is not zero, \<open>getWeightedFiatAverage\<close>
  returns the quotient of the sum of \<open>usdValue * weight\<close> by the sum of the weights, where
  each product, sum and quotient is rounded to a double and the sums are accumulated
  from \<open>0\<close> in the order of the list; \<open>usdValue\<close> is exactly \<open>1\<close> for an entry with code
  \<open>USD\<close>, whatever rate it holds, and \<open>1 / rate\<close> for every other entry. For weights \<open>1\<close>
  and \<open>3\<close> and USD values \<open>1.0\<close> and \<open>2.0\<close> the average is \<open>1.75\<close>.
\<close>

theorem weighted_average_formula:
  assumes "cachedRates st \<noteq> []"
      and "\<forall>f \<in> set (cachedRates st). code f \<noteq> ''USD'' \<longrightarrow> typeof (Some (rate f)) = TNumber"
      and "js_sum (map (\<lambda>f. to_double (weight f)) (cachedRates st)) \<noteq> Finite 0"
  shows "getWeightedFiatAverage coerce st =
           Inr (js_over
                  (js_sum (map (\<lambda>f. js_times (usd_of f) (to_double (weight f))) (cachedRates st)))
                  (js_sum (map (\<lambda>f. to_double (weight f)) (cachedRates st))))"
  using assms
  by (simp add: getWeightedFiatAverage_def average_loop_numbers js_sum_def)

theorem weighted_average_example:
  "cachedRates basket_service \<noteq> []
   \<and> js_sum (map (\<lambda>f. to_double (weight f)) (cachedRates basket_service)) = Finite 4
   \<and> getWeightedFiatAverage unused_coercion basket_service = Inr (Finite 1.75)"
proof -
  have ne: "cachedRates basket_service \<noteq> []"
    by (simp add: basket_service_def)
  have numbers: "\<forall>f \<in> set (cachedRates basket_service).
                   code f \<noteq> ''USD'' \<longrightarrow> typeof (Some (rate f)) = TNumber"
    by (simp add: basket_service_def)
  have total: "js_sum (map (\<lambda>f. to_double (weight f)) (cachedRates basket_service)) = Finite 4"
    by (simp add: basket_service_def js_sum_def to_double_small)
  then have nonzero: "js_sum (map (\<lambda>f. to_double (weight f)) (cachedRates basket_service))
                        \<noteq> Finite 0"
    by simp
  have weighted: "js_sum (map (\<lambda>f. js_times (usd_of f) (to_double (weight f)))
                            (cachedRates basket_service)) = Finite 7"
    by (simp add: basket_service_def js_sum_def usd_of_def number_of_def to_double_small)
  have "getWeightedFiatAverage unused_coercion basket_service = Inr (Finite 1.75)"
    using weighted_average_formula [OF ne numbers nonzero, of unused_coercion]
    by (simp add: total weighted to_double_small)
  with ne total show ?thesis by simp
qed

subsection \<open>The averaging preconditions\<close>

text \<open>
  The total weight the loop ends with is the sum of the weights, added up from \<open>0\<close> in
  the order of the list; with weights that are all zero it is zero.
\<close>

lemma average_loop_total:
  "average_loop coerce fs weightedSum totalWeight = Inr (w, t) \<Longrightarrow>
     t = foldl js_plus totalWeight (map (\<lambda>f. to_double (weight f)) fs)"
proof (induction fs arbitrary: weightedSum totalWeight)
  case Nil
  then show ?case by simp
next
  case (Cons f fs)
  then show ?case by (cases "usdValue coerce f") auto
qed

lemma zero_weights_total:
  "\<forall>f \<in> set fs. weight f = 0 \<Longrightarrow> js_sum (map (\<lambda>f. to_double (weight f)) fs) = Finite 0"
  unfolding js_sum_def by (induction fs) (simp_all add: to_double_def)

lemma zero_total_throws:
  assumes "cachedRates st \<noteq> []"
      and "js_sum (map (\<lambda>f. to_double (weight f)) (cachedRates st)) = Finite 0"
  shows "(\<exists>e. getWeightedFiatAverage coerce st = Inl e)
       \<and> ((\<forall>f \<in> set (cachedRates st). code f \<noteq> ''USD'' \<longrightarrow> typeof (Some (rate f)) = TNumber)
            \<longrightarrow> getWeightedFiatAverage coerce st = Inl InvalidFiatWeights)"
proof (cases "average_loop coerce (cachedRates st) (Finite 0) (Finite 0)")
  case (Inl e)
  with assms(1) have "getWeightedFiatAverage coerce st = Inl e"
    by (simp add: getWeightedFiatAverage_def)
  moreover have "getWeightedFiatAverage coerce st = Inl InvalidFiatWeights"
    if "\<forall>f \<in> set (cachedRates st). code f \<noteq> ''USD'' \<longrightarrow> typeof (Some (rate f)) = TNumber"
    using Inl average_loop_numbers [OF that, of coerce "Finite 0" "Finite 0"] by simp
  ultimately show ?thesis by blast
next
  case (Inr p)
  obtain w t where p: "p = (w, t)" by (cases p)
  with Inr assms(2) have "t = Finite 0"
    using average_loop_total [of coerce "cachedRates st" "Finite 0" "Finite 0" w t]
    by (simp add: js_sum_def)
  with Inr p assms(1) have "getWeightedFiatAverage coerce st = Inl InvalidFiatWeights"
    by (simp add: getWeightedFiatAverage_def)
  then show ?thesis by simp
qed

text \<open>
  Claim C7. \<open>getWeightedFiatAverage\<close> throws when the cached list is empty. It throws
  when the list is not empty and the total weight is exactly zero: the total the source
  adds up, and with it the sum of weights that are none of them negative, as the data
  model has them. The outcome is then an error and no number, finite or not; it is the
  error about the weights when every rate is a number (a rate that is none can make
  the conversion to a number throw first).
\<close>

theorem averaging_preconditions:
  "(cachedRates st = [] \<longrightarrow> getWeightedFiatAverage coerce st = Inl NoFiatRateData)
   \<and> (cachedRates st \<noteq> []
        \<and> js_sum (map (\<lambda>f. to_double (weight f)) (cachedRates st)) = Finite 0
        \<longrightarrow> (\<exists>e. getWeightedFiatAverage coerce st = Inl e)
            \<and> ((\<forall>f \<in> set (cachedRates st). code f \<noteq> ''USD'' \<longrightarrow> typeof (Some (rate f)) = TNumber)
                 \<longrightarrow> getWeightedFiatAverage coerce st = Inl InvalidFiatWeights))
   \<and> (cachedRates st \<noteq> [] \<and> (\<forall>f \<in> set (cachedRates st). 0 \<le> weight f)
        \<and> (\<Sum>f\<leftarrow>cachedRates st. weight f) = 0
        \<longrightarrow> (\<exists>e. getWeightedFiatAverage coerce st = Inl e)
            \<and> ((\<forall>f \<in> set (cachedRates st). code f \<noteq> ''USD'' \<longrightarrow> typeof (Some (rate f)) = TNumber)
                 \<longrightarrow> getWeightedFiatAverage coerce st = Inl InvalidFiatWeights))"
proof (intro conjI)
  show "cachedRates st = [] \<longrightarrow> getWeightedFiatAverage coerce st = Inl NoFiatRateData"
    by (simp add: getWeightedFiatAverage_def)
next
  show "cachedRates st \<noteq> []
        \<and> js_sum (map (\<lambda>f. to_double (weight f)) (cachedRates st)) = Finite 0
        \<longrightarrow> (\<exists>e. getWeightedFiatAverage coerce st = Inl e)
            \<and> ((\<forall>f \<in> set (cachedRates st). code f \<noteq> ''USD'' \<longrightarrow> typeof (Some (rate f)) = TNumber)
                 \<longrightarrow> getWeightedFiatAverage coerce st = Inl InvalidFiatWeights)"
    using zero_total_throws [of st coerce] by blast
next
  show "cachedRates st \<noteq> [] \<and> (\<forall>f \<in> set (cachedRates st). 0 \<le> weight f)
        \<and> (\<Sum>f\<leftarrow>cachedRates st. weight f) = 0
        \<longrightarrow> (\<exists>e. getWeightedFiatAverage coerce st = Inl e)
            \<and> ((\<forall>f \<in> set (cachedRates st). code f \<noteq> ''USD'' \<longrightarrow> typeof (Some (rate f)) = TNumber)
                 \<longrightarrow> getWeightedFiatAverage coerce st = Inl InvalidFiatWeights)"
  proof
    assume a: "cachedRates st \<noteq> [] \<and> (\<forall>f \<in> set (cachedRates st). 0 \<le> weight f)
                 \<and> (\<Sum>f\<leftarrow>cachedRates st. weight f) = 0"
    then have "\<forall>w \<in> set (map weight (cachedRates st)). w = 0"
      using sum_list_nonneg_eq_0_iff [of "map weight (cachedRates st)"] by auto
    then have "\<forall>f \<in> set (cachedRates st). weight f = 0" by simp
    then have "js_sum (map (\<lambda>f. to_double (weight f)) (cachedRates st)) = Finite 0"
      by (rule zero_weights_total)
    with a zero_total_throws [of st coerce]
    show "(\<exists>e. getWeightedFiatAverage coerce st = Inl e)
            \<and> ((\<forall>f \<in> set (cachedRates st). code f \<noteq> ''USD'' \<longrightarrow> typeof (Some (rate f)) = TNumber)
                 \<longrightarrow> getWeightedFiatAverage coerce st = Inl InvalidFiatWeights)"
      by blast
  qed
qed

theorem averaging_preconditions_witness:
  "cachedRates initial_service = []
   \<and> getWeightedFiatAverage unused_coercion initial_service = Inl NoFiatRateData
   \<and> cachedRates zero_weight_service \<noteq> []
   \<and> (\<Sum>f\<leftarrow>cachedRates zero_weight_service. weight f) = 0
   \<and> js_sum (map (\<lambda>f. to_double (weight f)) (cachedRates zero_weight_service)) = Finite 0
   \<and> getWeightedFiatAverage unused_coercion zero_weight_service = Inl InvalidFiatWeights"
proof -
  have e: "cachedRates initial_service = []"
    by (simp add: initial_service_def)
  have z: "cachedRates zero_weight_service \<noteq> []
           \<and> (\<forall>f \<in> set (cachedRates zero_weight_service). 0 \<le> weight f)
           \<and> (\<Sum>f\<leftarrow>cachedRates zero_weight_service. weight f) = 0"
    by (simp add: zero_weight_service_def)
  have total: "js_sum (map (\<lambda>f. to_double (weight f)) (cachedRates zero_weight_service))
                 = Finite 0"
    by (simp add: zero_weight_service_def js_sum_def to_double_small)
  with z have z': "cachedRates zero_weight_service \<noteq> []
           \<and> js_sum (map (\<lambda>f. to_double (weight f)) (cachedRates zero_weight_service))
               = Finite 0"
    by simp
  have numbers: "\<forall>f \<in> set (cachedRates zero_weight_service).
                   code f \<noteq> ''USD'' \<longrightarrow> typeof (Some (rate f)) = TNumber"
    by (simp add: zero_weight_service_def)
  note empty_case =
    averaging_preconditions [of initial_service unused_coercion, THEN conjunct1, rule_format, OF e]
  note total_case =
    averaging_preconditions [of zero_weight_service unused_coercion, THEN conjunct2,
      THEN conjunct1, THEN mp, OF z', THEN conjunct2, THEN mp, OF numbers]
  note zero_case =
    averaging_preconditions [of zero_weight_service unused_coercion, THEN conjunct2,
      THEN conjunct2, THEN mp, OF z, THEN conjunct2, THEN mp, OF numbers]
  from e z total empty_case zero_case total_case show ?thesis by blast
qed

subsection \<open>The cache\<close>

lemma shouldRefreshCache_iff:
  "shouldRefreshCache st now \<longleftrightarrow>
     (lastFetch st = None \<or> (\<exists>t. lastFetch st = Some t \<and> now - t > 60000))"
  by (auto simp: shouldRefreshCache_def CACHE_DURATION_def split: option.splits)

lemma retry_loop_failed:
  "retry_loop (\<lambda>k. refresh_attempt (envs k)) a r st = (Inl e, st') \<Longrightarrow>
     st' = st \<and> (\<forall>j. a \<le> j \<and> j \<le> a + r \<longrightarrow> baseline_read (envs j) = ReadThrows)"
proof (induction r arbitrary: a)
  case 0
  then show ?case using refresh_attempt_failed by auto
next
  case (Suc r)
  show ?case
  proof (cases "refresh_attempt (envs a) st")
    case (Pair res st1)
    show ?thesis
    proof (cases res)
      case (Inr v)
      with Pair Suc.prems show ?thesis by auto
    next
      case (Inl e1)
      with Pair have st1: "st1 = st" and thr: "baseline_read (envs a) = ReadThrows"
        using refresh_attempt_failed by blast+
      from Suc.prems Pair Inl st1
      have "retry_loop (\<lambda>k. refresh_attempt (envs k)) (Suc a) r st = (Inl e, st')"
        by simp
      from Suc.IH [OF this]
      have st': "st' = st"
        and later: "\<forall>j. Suc a \<le> j \<and> j \<le> Suc a + r \<longrightarrow> baseline_read (envs j) = ReadThrows"
        by blast+
      have "\<forall>j. a \<le> j \<and> j \<le> a + Suc r \<longrightarrow> baseline_read (envs j) = ReadThrows"
      proof (intro allI impI)
        fix j assume "a \<le> j \<and> j \<le> a + Suc r"
        then show "baseline_read (envs j) = ReadThrows"
          using later thr by (cases "j = a") auto
      qed
      with st' show ?thesis by simp
    qed
  qed
qed

lemma refreshRates_failed:
  assumes "refreshRates n envs st = (Inl e, st')"
  shows "st' = st \<and> (\<forall>j \<le> n - 1. baseline_read (envs j) = ReadThrows)"
  using retry_loop_failed [of envs 0 "n - 1" st e st'] assms
  by (auto simp: refreshRates_def withRetry_def)

text \<open>
  The call, once the configuration is there: \<open>loaded\<close> is the service after
  \<open>initialize\<close>, which runs when the configured list is empty.
\<close>

lemma getFiatRatesWithWeights_loaded:
  assumes "fiatConfig st \<noteq> [] \<or> config_read \<noteq> ReadThrows"
      and "loaded = (if fiatConfig st = [] then snd (initialize config_read st) else st)"
  shows "getFiatRatesWithWeights config_read now n envs st =
           (if \<not> shouldRefreshCache st now \<and> cachedRates st \<noteq> []
            then (Inr (cachedRates st), loaded) else refreshRates n envs loaded)"
    and "cachedRates loaded = cachedRates st"
    and "lastFetch loaded = lastFetch st"
proof -
  have init: "(if fiatConfig st = [] then initialize config_read st else (Inr (), st))
                = (Inr (), loaded)"
    using assms by (auto simp: initialize_def split: read_outcome.splits)
  show same: "cachedRates loaded = cachedRates st" "lastFetch loaded = lastFetch st"
    using assms by (auto simp: initialize_def split: read_outcome.splits)
  show "getFiatRatesWithWeights config_read now n envs st =
          (if \<not> shouldRefreshCache st now \<and> cachedRates st \<noteq> []
           then (Inr (cachedRates st), loaded) else refreshRates n envs loaded)"
    unfolding getFiatRatesWithWeights_def init
    by (simp add: same shouldRefreshCache_def)
qed

lemma first_call_empty:
  "getFiatRatesWithWeights (ReadValue None) 1000 3 (\<lambda>k. scenario_env) initial_service
     = (Inr [], empty_cache_service)"
proof -
  have "refreshRates 3 (\<lambda>k. scenario_env) initial_service
          = refresh_attempt scenario_env initial_service"
    by (rule refreshRates_first_attempt) (simp add: scenario_env_def)
  then show ?thesis
    by (simp add: getFiatRatesWithWeights_def initialize_def shouldRefreshCache_def)
       (simp add: run_defs scenario_env_def scenario_body_def empty_cache_service_def)
qed

text \<open>
  Claim C8, as stated, fails: it says that every call made while the age of the snapshot
  does not exceed the 60 seconds returns the cached snapshot without a refresh. The
  source also asks for a cached list that is not empty. With no configuration file, a
  first call at time \<open>1000\<close> caches the empty list and stamps it \<open>1000\<close>; a second call
  at time \<open>2000\<close> runs the refresh again and moves the stamp to \<open>2000\<close>.
\<close>

theorem fresh_empty_cache_refreshed:
  "getFiatRatesWithWeights (ReadValue None) 1000 3 (\<lambda>k. scenario_env) initial_service
     = (Inr [], empty_cache_service)
   \<and> lastFetch empty_cache_service = Some 1000
   \<and> 2000 - 1000 \<le> CACHE_DURATION
   \<and> getFiatRatesWithWeights (ReadValue None) 2000 3 (\<lambda>k. later_env) empty_cache_service
     = (Inr [], \<lparr>cachedRates = [], fiatConfig = [], lastFetch = Some 2000\<rparr>)"
proof -
  have "refreshRates 3 (\<lambda>k. later_env) empty_cache_service
          = refresh_attempt later_env empty_cache_service"
    by (rule refreshRates_first_attempt) (simp add: later_env_def)
  then have "getFiatRatesWithWeights (ReadValue None) 2000 3 (\<lambda>k. later_env) empty_cache_service
     = (Inr [], \<lparr>cachedRates = [], fiatConfig = [], lastFetch = Some 2000\<rparr>)"
    by (simp add: getFiatRatesWithWeights_def initialize_def shouldRefreshCache_def)
       (simp add: run_defs later_env_def scenario_body_def empty_cache_service_def)
  with first_call_empty show ?thesis
    by (simp add: CACHE_DURATION_def) (simp add: empty_cache_service_def)
qed

text \<open>
  Claim C8, amended. Take a call whose configuration is there, or loads without
  throwing. If the age of the snapshot does not exceed \<open>60000\<close> ms and the cached list is
  not empty, the call returns the cached list and leaves it and \<open>lastFetch\<close> as they
  were. If no fetch has completed, or the age exceeds \<open>60000\<close> ms, the call is
  \<open>refreshRates\<close>. Whatever the call does, \<open>lastFetch\<close> afterwards is what it was
  before, or the time at which a run of the refresh completed.
\<close>

theorem cache_ttl_behaviour:
  assumes "fiatConfig st \<noteq> [] \<or> config_read \<noteq> ReadThrows"
      and "loaded = (if fiatConfig st = [] then snd (initialize config_read st) else st)"
  shows "(\<forall>t. lastFetch st = Some t \<and> now - t \<le> 60000 \<and> cachedRates st \<noteq> []
            \<longrightarrow> getFiatRatesWithWeights config_read now n envs st = (Inr (cachedRates st), loaded)
                \<and> cachedRates loaded = cachedRates st \<and> lastFetch loaded = lastFetch st)
       \<and> (lastFetch st = None \<or> (\<exists>t. lastFetch st = Some t \<and> now - t > 60000)
            \<longrightarrow> getFiatRatesWithWeights config_read now n envs st = refreshRates n envs loaded)
       \<and> (\<forall>res st'. getFiatRatesWithWeights config_read now n envs st = (res, st')
            \<longrightarrow> lastFetch st' = lastFetch st
                \<or> (\<exists>out k. res = Inr out \<and> k \<le> n - 1
                      \<and> refresh_attempt (envs k) loaded = (Inr out, st')
                      \<and> lastFetch st' = Some (clock (envs k))))"
proof -
  note call = getFiatRatesWithWeights_loaded (1) [OF assms, of now n envs]
  note same = getFiatRatesWithWeights_loaded (2,3) [OF assms]
  have hit: "\<forall>t. lastFetch st = Some t \<and> now - t \<le> 60000 \<and> cachedRates st \<noteq> []
            \<longrightarrow> getFiatRatesWithWeights config_read now n envs st = (Inr (cachedRates st), loaded)
                \<and> cachedRates loaded = cachedRates st \<and> lastFetch loaded = lastFetch st"
    by (simp add: call same shouldRefreshCache_iff)
  have miss: "lastFetch st = None \<or> (\<exists>t. lastFetch st = Some t \<and> now - t > 60000)
            \<longrightarrow> getFiatRatesWithWeights config_read now n envs st = refreshRates n envs loaded"
    by (auto simp add: call shouldRefreshCache_iff)
  have stamp: "lastFetch st' = lastFetch st
                \<or> (\<exists>out k. res = Inr out \<and> k \<le> n - 1
                      \<and> refresh_attempt (envs k) loaded = (Inr out, st')
                      \<and> lastFetch st' = Some (clock (envs k)))"
    if r: "getFiatRatesWithWeights config_read now n envs st = (res, st')" for res st'
  proof (cases "\<not> shouldRefreshCache st now \<and> cachedRates st \<noteq> []")
    case True
    with r call have "st' = loaded" by simp
    then show ?thesis by (simp add: same)
  next
    case False
    with r call have rr: "refreshRates n envs loaded = (res, st')" by auto
    show ?thesis
    proof (cases res)
      case (Inl e)
      with rr have "st' = loaded" using refreshRates_failed by blast
      then show ?thesis by (simp add: same)
    next
      case (Inr out)
      with rr obtain k where k: "k \<le> n - 1" "refresh_attempt (envs k) loaded = (Inr out, st')"
        using refreshRates_completed by blast
      from refresh_attempt_completed [OF k(2)]
      have "lastFetch st' = Some (clock (envs k))" by auto
      with k Inr show ?thesis by blast
    qed
  qed
  from hit miss stamp show ?thesis by blast
qed

lemma later_refresh:
  "refreshRates 3 (\<lambda>k. later_env) cached_service =
     (Inr scenario_rates,
      \<lparr>cachedRates = scenario_rates, fiatConfig = scenario_config, lastFetch = Some 2000\<rparr>)"
proof -
  have "refreshRates 3 (\<lambda>k. later_env) cached_service = refresh_attempt later_env cached_service"
    by (rule refreshRates_first_attempt) (simp add: later_env_def)
  then show ?thesis
    by (simp add: run_defs later_env_def scenario_body_def cached_service_def
          scenario_config_def scenario_rates_def scenario_baseline_def)
qed

theorem cache_ttl_behaviour_witness:
  "getFiatRatesWithWeights ReadThrows 61000 3 (\<lambda>k. later_env) cached_service
     = (Inr scenario_rates, cached_service)
   \<and> getFiatRatesWithWeights ReadThrows 61001 3 (\<lambda>k. later_env) cached_service
     = (Inr scenario_rates,
        \<lparr>cachedRates = scenario_rates, fiatConfig = scenario_config, lastFetch = Some 2000\<rparr>)"
proof -
  have cfg: "fiatConfig cached_service \<noteq> [] \<or> (ReadThrows :: FiatConfig list read_outcome) \<noteq> ReadThrows"
    by (simp add: cached_service_def scenario_config_def)
  have loaded: "cached_service =
      (if fiatConfig cached_service = [] then snd (initialize ReadThrows cached_service)
       else cached_service)"
    by (simp add: cached_service_def scenario_config_def)
  note ttl = cache_ttl_behaviour [OF cfg loaded, of _ 3 "\<lambda>k. later_env"]
  have fresh: "lastFetch cached_service = Some 1000 \<and> 61000 - 1000 \<le> (60000::int)
                 \<and> cachedRates cached_service \<noteq> []"
    by (simp add: cached_service_def scenario_rates_def)
  have stale: "lastFetch cached_service = None
                 \<or> (\<exists>t. lastFetch cached_service = Some t \<and> 61001 - t > 60000)"
    by (simp add: cached_service_def)
  have "getFiatRatesWithWeights ReadThrows 61000 3 (\<lambda>k. later_env) cached_service
          = (Inr (cachedRates cached_service), cached_service)"
    using ttl [of 61000, THEN conjunct1, rule_format, OF fresh] by simp
  moreover have "getFiatRatesWithWeights ReadThrows 61001 3 (\<lambda>k. later_env) cached_service
          = refreshRates 3 (\<lambda>k. later_env) cached_service"
    by (rule ttl [of 61001, THEN conjunct2, THEN conjunct1, rule_format, OF stale])
  ultimately show ?thesis
    by (simp add: later_refresh) (simp add: cached_service_def)
qed

text \<open>
  Claim C10. A call returns the cache without refreshing only when the snapshot is fresh
  and the cached list is not empty: when \<open>lastFetch\<close> is within the 60 seconds and the
  cached list is empty, the call is \<open>refreshRates\<close> (on the service with its
  configuration loaded), and so is every call for which "fresh and not empty" fails.
\<close>

theorem cache_hit_needs_cached_rates:
  assumes "fiatConfig st \<noteq> [] \<or> config_read \<noteq> ReadThrows"
      and "loaded = (if fiatConfig st = [] then snd (initialize config_read st) else st)"
  shows "(\<forall>t. lastFetch st = Some t \<and> now - t \<le> 60000 \<and> cachedRates st = []
            \<longrightarrow> getFiatRatesWithWeights config_read now n envs st = refreshRates n envs loaded)
       \<and> (\<not> ((\<exists>t. lastFetch st = Some t \<and> now - t \<le> 60000) \<and> cachedRates st \<noteq> [])
            \<longrightarrow> getFiatRatesWithWeights config_read now n envs st = refreshRates n envs loaded)"
proof -
  note call = getFiatRatesWithWeights_loaded (1) [OF assms, of now n envs]
  have "getFiatRatesWithWeights config_read now n envs st = refreshRates n envs loaded"
    if "\<not> ((\<exists>t. lastFetch st = Some t \<and> now - t \<le> 60000) \<and> cachedRates st \<noteq> [])"
  proof -
    from that have "shouldRefreshCache st now \<or> cachedRates st = []"
      by (cases "lastFetch st") (auto simp: shouldRefreshCache_iff)
    then show ?thesis by (auto simp: call)
  qed
  then show ?thesis by blast
qed

theorem cache_hit_needs_cached_rates_witness:
  "lastFetch empty_cache_service = Some 1000 \<and> 2000 - 1000 \<le> (60000::int)
   \<and> cachedRates empty_cache_service = []
   \<and> getFiatRatesWithWeights (ReadValue (Some scenario_config)) 2000 3 (\<lambda>k. later_env)
        empty_cache_service
     = (Inr scenario_rates,
        \<lparr>cachedRates = scenario_rates, fiatConfig = scenario_config, lastFetch = Some 2000\<rparr>)"
proof -
  let ?read = "ReadValue (Some scenario_config) :: FiatConfig list read_outcome"
  have cfg: "fiatConfig empty_cache_service \<noteq> [] \<or> ?read \<noteq> ReadThrows"
    by simp
  have loaded: "reloaded_service =
      (if fiatConfig empty_cache_service = [] then snd (initialize ?read empty_cache_service)
       else empty_cache_service)"
    by (simp add: empty_cache_service_def reloaded_service_def initialize_def)
  have fresh: "lastFetch empty_cache_service = Some 1000 \<and> 2000 - 1000 \<le> (60000::int)
                 \<and> cachedRates empty_cache_service = []"
    by (simp add: empty_cache_service_def)
  have "refreshRates 3 (\<lambda>k. later_env) reloaded_service
          = refresh_attempt later_env reloaded_service"
    by (rule refreshRates_first_attempt) (simp add: later_env_def)
  then have refresh: "refreshRates 3 (\<lambda>k. later_env) reloaded_service =
     (Inr scenario_rates,
      \<lparr>cachedRates = scenario_rates, fiatConfig = scenario_config, lastFetch = Some 2000\<rparr>)"
    by (simp add: run_defs later_env_def scenario_body_def reloaded_service_def
          scenario_config_def scenario_rates_def scenario_baseline_def)
  have "getFiatRatesWithWeights ?read 2000 3 (\<lambda>k. later_env) empty_cache_service
          = refreshRates 3 (\<lambda>k. later_env) reloaded_service"
    by (rule cache_hit_needs_cached_rates
          [OF cfg loaded, THEN conjunct1, rule_format, OF fresh])
  with refresh fresh show ?thesis by simp
qed

subsection \<open>Retry and fallback\<close>

text \<open>
  The \<open>catch\<close> block is inside the retried closure: a run whose request fails returns
  the baseline snapshot normally, and \<open>withRetry\<close> has nothing to retry.
\<close>

lemma refreshRates_fetch_failure:
  assumes "baseline_read (envs 0) = ReadValue baseline"
      and "fetch_rates (fetched (envs 0)) = None"
  shows "refreshRates n envs st =
           (Inr (map (baseline_entry baseline) (fiatConfig st)),
            st\<lparr>cachedRates := map (baseline_entry baseline) (fiatConfig st),
               lastFetch := Some (clock (envs 0))\<rparr>)"
  using refreshRates_first_attempt [of envs baseline n st] assms
  by (simp add: refresh_attempt_def Let_def)

text \<open>
  Claim C9 says that the retry wrapper surrounds the fetch and the reconciliation but
  not the baseline fallback, which is engaged once all attempts are used up. In the
  source a rejected request is answered by the fallback in the same run: with three
  attempts allowed, a first request that is rejected and later requests that would
  succeed, \<open>refreshRates\<close> returns the baseline snapshot of the first run (the euro at
  \<open>0.92\<close>, stamped \<open>1000\<close>), where a second run would have returned the live rates (the
  euro at \<open>0.9\<close>).
\<close>

theorem fetch_failure_not_retried:
  "refresh_attempt rejected_env scenario_service =
     (Inr baseline_rates,
      \<lparr>cachedRates = baseline_rates, fiatConfig = scenario_config, lastFetch = Some 1000\<rparr>)
   \<and> refreshRates 3 (\<lambda>k. if k = 0 then rejected_env else later_env) scenario_service =
     (Inr baseline_rates,
      \<lparr>cachedRates = baseline_rates, fiatConfig = scenario_config, lastFetch = Some 1000\<rparr>)
   \<and> refresh_attempt later_env scenario_service =
     (Inr scenario_rates,
      \<lparr>cachedRates = scenario_rates, fiatConfig = scenario_config, lastFetch = Some 2000\<rparr>)"
proof -
  let ?envs = "\<lambda>k::nat. if k = 0 then rejected_env else later_env"
  have run: "refresh_attempt rejected_env scenario_service =
     (Inr baseline_rates,
      \<lparr>cachedRates = baseline_rates, fiatConfig = scenario_config, lastFetch = Some 1000\<rparr>)"
    by (simp add: run_defs baseline_entry_def rejected_env_def scenario_service_def
          scenario_config_def baseline_rates_def scenario_baseline_def)
  have "refreshRates 3 ?envs scenario_service = refresh_attempt (?envs 0) scenario_service"
    by (rule refreshRates_first_attempt) (simp add: rejected_env_def)
  with run have first: "refreshRates 3 ?envs scenario_service =
     (Inr baseline_rates,
      \<lparr>cachedRates = baseline_rates, fiatConfig = scenario_config, lastFetch = Some 1000\<rparr>)"
    by simp
  have "refresh_attempt later_env scenario_service =
     (Inr scenario_rates,
      \<lparr>cachedRates = scenario_rates, fiatConfig = scenario_config, lastFetch = Some 2000\<rparr>)"
    by (simp add: run_defs later_env_def scenario_body_def scenario_service_def
          scenario_config_def scenario_rates_def scenario_baseline_def)
  with run first show ?thesis by simp
qed

end
